theory Spec2Isabelle
  imports Main "HOL-Library.AList"
begin

section \<open>tinyblend: a reader of the Blender file format\<close>

text \<open>
  The development follows \<^verbatim>\<open>tinyblend.py\<close>. Python \<^verbatim>\<open>bytes\<close> are lists of 8-bit
  characters, Python integers are \<^typ>\<open>int\<close>, an exception is the left summand of a
  result. Field and type names are strings over 8-bit code points.
\<close>

type_synonym bytes = "char list"

datatype error =
    BlenderFileImportException string
  | BlenderFileReadException string
  | RuntimeError string
  | AttributeError string
  | KeyError string
  | MissingAttribute string
  | IndexError
  | ValueError
  | TypeError
  | StopIteration
  | ZeroDivisionError
  | RecursionError
  | StructError

text \<open>
  Sequencing of steps that may raise: the first exception raised is the result.
\<close>

definition then_do :: "error + 'a \<Rightarrow> ('a \<Rightarrow> error + 'b) \<Rightarrow> error + 'b" where
  "then_do m k = (case m of Inl e \<Rightarrow> Inl e | Inr x \<Rightarrow> k x)"

lemma then_do_Inl [simp]: "then_do (Inl e) k = Inl e"
  by (simp add: then_do_def)

lemma then_do_Inr [simp]: "then_do (Inr x) k = k x"
  by (simp add: then_do_def)

lemma then_do_cong [fundef_cong]:
  "m = m' \<Longrightarrow> (\<And>x. m' = Inr x \<Longrightarrow> k x = k' x) \<Longrightarrow> then_do m k = then_do m' k'"
  by (cases m') (simp_all add: then_do_def)

subsection \<open>File header\<close>

datatype BlendFileArch = X32 | X64

datatype BlendFileEndian = Little | Big

text \<open>
  The third component of the version is \<^verbatim>\<open>rev\<close> in the source; it is \<open>rev_num\<close> here,
  as \<open>rev\<close> reverses lists.
\<close>

record BlendVersionInfo =
  major :: int
  minor :: int
  rev_num :: int

record BlendFileHeader =
  version :: BlendVersionInfo
  arch :: BlendFileArch
  endian :: BlendFileEndian

text \<open>
  \<^verbatim>\<open>BlenderFile._parse_header\<close>: \<^verbatim>\<open>None\<close> unless the argument has twelve bytes and
  starts with \<^verbatim>\<open>b'BLENDER'\<close>; then the architecture byte, then the endianness byte
  are looked at, in that order. The version is \<^verbatim>\<open>[x - 48 for x in header[9::]]\<close>:
  every byte is taken as it is.
\<close>

definition parse_header :: "bytes \<Rightarrow> BlendFileHeader option" where
  "parse_header hdr =
     (if length hdr \<noteq> 12 \<or> take 7 hdr \<noteq> ''BLENDER'' then None
      else
        let arch_b = take 1 (drop 7 hdr);
            endian_b = take 1 (drop 8 hdr);
            ver = map (\<lambda>x. int (of_char x) - 48) (drop 9 hdr)
        in if arch_b \<noteq> ''-'' \<and> arch_b \<noteq> ''_'' then None
           else if endian_b \<noteq> ''v'' \<and> endian_b \<noteq> ''V'' then None
           else Some \<lparr>version = \<lparr>major = ver ! 0, minor = ver ! 1, rev_num = ver ! 2\<rparr>,
                      arch = (if arch_b = ''-'' then X64 else X32),
                      endian = (if endian_b = ''v'' then Little else Big)\<rparr>)"

text \<open>
  The first step of \<^verbatim>\<open>BlenderFile.__init__\<close>: \<^verbatim>\<open>handle.read(12)\<close> gives at most the
  first twelve bytes of the file, and a header that does not parse raises
  \<^verbatim>\<open>BlenderFileImportException('Bad file header')\<close>.
\<close>

definition init_header :: "bytes \<Rightarrow> error + BlendFileHeader" where
  "init_header contents =
     (case parse_header (take 12 contents) of
        None \<Rightarrow> Inl (BlenderFileImportException ''Bad file header'')
      | Some h \<Rightarrow> Inr h)"

subsection \<open>The index (SDNA) and the block table\<close>

text \<open>
  The named tuples of the module. A field \<^verbatim>\<open>x\<close> of a tuple is written with a prefix
  naming the tuple (\<^verbatim>\<open>dna_\<close>, \<^verbatim>\<open>sf_\<close>, \<^verbatim>\<open>bs_\<close>, \<^verbatim>\<open>b_\<close>), since several tuples share
  field names. All numbers read from the file with the signed formats \<^verbatim>\<open>h\<close> and
  \<^verbatim>\<open>i\<close> are integers that may be negative.
\<close>

record BlendBlockHeader =
  b_code :: bytes
  b_size :: int
  b_addr :: int
  b_sdna :: int
  b_count :: int

record BlendStructFieldDNA =
  index_type :: int
  index_name :: int

record BlendStructDNA =
  dna_index :: int
  dna_fields :: "BlendStructFieldDNA list"

record BlendStructField =
  sf_name :: string
  sf_type :: string
  sf_size :: int
  sf_ptr :: bool
  sf_count :: int

record BlendStruct =
  bs_name :: string
  bs_fields :: "BlendStructField list"

record BlendIndex =
  field_names :: "string list"
  type_names :: "string list"
  type_sizes :: "int list"
  structures :: "BlendStructDNA list"

text \<open>
  A \<^verbatim>\<open>BlenderFile\<close> after \<^verbatim>\<open>__init__\<close>: the handle is the content of the file and
  whether it has been closed. Every read of a block seeks to an absolute offset first,
  so the position of the handle is not part of the state.
\<close>

record BlenderFile =
  header :: BlendFileHeader
  handle_data :: bytes
  handle_closed :: bool
  blocks :: "(BlendBlockHeader \<times> nat) list"
  index :: BlendIndex

subsection \<open>Python sequences and numbers\<close>

text \<open>\<^verbatim>\<open>xs[i]\<close> on a list, tuple or string: a negative index counts from the end.\<close>

definition py_get :: "'a list \<Rightarrow> int \<Rightarrow> error + 'a" where
  "py_get xs i =
     (if 0 \<le> i \<and> i < int (length xs) then Inr (xs ! nat i)
      else if i < 0 \<and> - int (length xs) \<le> i then Inr (xs ! nat (int (length xs) + i))
      else Inl IndexError)"

definition is_digit :: "char \<Rightarrow> bool" where
  "is_digit c = (48 \<le> (of_char c :: nat) \<and> (of_char c :: nat) \<le> 57)"

text \<open>\<^verbatim>\<open>int(v)\<close> on a string of decimal digits.\<close>

definition int_of_digits :: "string \<Rightarrow> int" where
  "int_of_digits ds = foldl (\<lambda>a c. 10 * a + (int (of_char c) - 48)) 0 ds"

text \<open>
  \<^verbatim>\<open>re.compile(r'\[(\d+)\]').findall(name)\<close>: the digit groups of the non-overlapping
  matches, from left to right. A match at \<^verbatim>\<open>[\<close> takes the longest run of digits, which
  must not be empty and must be followed by \<^verbatim>\<open>]\<close>; the search goes on after the match,
  or at the next character when there is none.
\<close>

function array_template_findall :: "string \<Rightarrow> string list" where
  "array_template_findall [] = []"
| "array_template_findall (c # cs) =
     (if c = CHR ''['' \<and> takeWhile is_digit cs \<noteq> []
         \<and> take 1 (dropWhile is_digit cs) = '']''
      then takeWhile is_digit cs # array_template_findall (drop 1 (dropWhile is_digit cs))
      else array_template_findall cs)"
  by pat_completeness auto
termination
  by (relation "measure length")
    (auto simp: less_Suc_eq_le intro: order_trans [OF diff_le_self length_dropWhile_le])

subsection \<open>Exporting a structure\<close>

definition ptr_size :: "BlenderFile \<Rightarrow> int" where
  "ptr_size f = (if arch (header f) = X64 then 8 else 4)"

text \<open>
  One turn of the loop of \<^verbatim>\<open>BlenderFile._export_struct\<close>. The three table lookups
  come first, in the order of the source; \<^verbatim>\<open>name[0]\<close> raises on an empty name;
  \<^verbatim>\<open>name.index('[')\<close> raises \<^verbatim>\<open>ValueError\<close> when the name ends with a bracket and
  has no opening one. The test for an array looks at the name before the sigils are
  stripped, and an array of pointers is an array as any other.
\<close>

definition export_field :: "BlenderFile \<Rightarrow> BlendStructFieldDNA \<Rightarrow> error + BlendStructField" where
  "export_field f d =
     then_do (py_get (field_names (index f)) (index_name d)) (\<lambda>name.
     then_do (py_get (type_names (index f)) (index_type d)) (\<lambda>ty.
     then_do (py_get (type_sizes (index f)) (index_type d)) (\<lambda>sz.
       if name = [] then Inl IndexError
       else
         let is_ptr = (hd name = CHR ''*'');
             is_array = (last name = CHR '']'');
             name1 = (if is_ptr then dropWhile (\<lambda>c. c = CHR ''*'') name else name);
             size1 = (if is_ptr then ptr_size f else sz)
         in if is_array then
              let cnt = foldl (\<lambda>a v. a * int_of_digits v) 1 (array_template_findall name1)
              in if CHR ''['' \<in> set name1
                 then Inr \<lparr>sf_name = takeWhile (\<lambda>c. c \<noteq> CHR ''['') name1, sf_type = ty,
                           sf_size = size1 * cnt, sf_ptr = is_ptr, sf_count = cnt\<rparr>
                 else Inl ValueError
            else Inr \<lparr>sf_name = name1, sf_type = ty, sf_size = size1, sf_ptr = is_ptr,
                      sf_count = 1\<rparr>)))"

fun export_fields :: "BlenderFile \<Rightarrow> BlendStructFieldDNA list \<Rightarrow> error + BlendStructField list" where
  "export_fields f [] = Inr []"
| "export_fields f (d # ds) =
     then_do (export_field f d) (\<lambda>x.
     then_do (export_fields f ds) (\<lambda>xs. Inr (x # xs)))"

definition export_struct :: "BlenderFile \<Rightarrow> BlendStructDNA \<Rightarrow> error + BlendStruct" where
  "export_struct f s =
     then_do (py_get (type_names (index f)) (dna_index s)) (\<lambda>nm.
     then_do (export_fields f (dna_fields s)) (\<lambda>fs.
       Inr \<lparr>bs_name = nm, bs_fields = fs\<rparr>))"

subsection \<open>Printing numbers\<close>

text \<open>\<^verbatim>\<open>str(n)\<close> and \<^verbatim>\<open>hex(n)\<close> on integers.\<close>

function str_nat :: "nat \<Rightarrow> string" where
  "str_nat n =
     (if n < 10 then [char_of (48 + n)] else str_nat (n div 10) @ [char_of (48 + n mod 10)])"
  by pat_completeness auto
termination
  by (relation "measure id") auto

declare str_nat.simps [simp del]

definition str_int :: "int \<Rightarrow> string" where
  "str_int i = (if i < 0 then ''-'' @ str_nat (nat (- i)) else str_nat (nat i))"

definition hex_digit :: "nat \<Rightarrow> char" where
  "hex_digit d = (if d < 10 then char_of (48 + d) else char_of (87 + d))"

function hex_nat :: "nat \<Rightarrow> string" where
  "hex_nat n =
     (if n < 16 then [hex_digit n] else hex_nat (n div 16) @ [hex_digit (n mod 16)])"
  by pat_completeness auto
termination
  by (relation "measure id") auto

declare hex_nat.simps [simp del]

definition hex :: "int \<Rightarrow> string" where
  "hex i = (if i < 0 then ''-0x'' @ hex_nat (nat (- i)) else ''0x'' @ hex_nat (nat i))"

subsection \<open>Object types and objects\<close>

text \<open>
  The type that \<^verbatim>\<open>_build_object_type\<close> creates with \<^verbatim>\<open>type(name, (BlenderObject,),
  class_attrs)\<close>: its name, \<^verbatim>\<open>VERSION\<close>, the field names and the format string of the
  \<^verbatim>\<open>NamedStruct\<close> in \<^verbatim>\<open>FMT\<close>, the entries (type, slice, name) of \<^verbatim>\<open>CLASSES\<close>, and the
  names that carry an \<^verbatim>\<open>AddressLookup\<close> descriptor.
\<close>

datatype BlenderObjectType = BlenderObjectType
  (t_name: string)
  (t_VERSION: BlendVersionInfo)
  (t_names: "string list")
  (t_format: string)
  (t_CLASSES: "(BlenderObjectType \<times> (int \<times> int) \<times> string) list")
  (t_pointers: "string list")

text \<open>
  The values an attribute of an object holds. A float is kept as the number its bytes
  spell, so two floats are the same value exactly when their bytes agree. A named
  tuple has its field names and its values. An object
  has its type, the identifier of the file it refers to weakly, and its instance
  attributes in the order they were set.
\<close>

datatype pyval =
    PInt int
  | PFloat int
  | PBytes bytes
  | PTuple "pyval list"
  | PNamedTuple "string list" "pyval list"
  | PList "pyval list"
  | PNone
  | PObj BlenderObject
and BlenderObject = BlenderObject
  (o_type: BlenderObjectType)
  (o_file: nat)
  (o_attrs: "(string \<times> pyval) list")

text \<open>
  \<^verbatim>\<open>setattr\<close> and \<^verbatim>\<open>delattr\<close> on an object. A name with an \<^verbatim>\<open>AddressLookup\<close> in the
  type goes to the descriptor, whose \<^verbatim>\<open>__set__\<close> and \<^verbatim>\<open>__delete__\<close> raise; any other
  name is stored in, or removed from, the instance. Both return the object as it is
  after the call, together with the exception if one was raised. Reading an instance
  attribute that was never set raises \<^verbatim>\<open>AttributeError\<close>, written
  \<open>MissingAttribute\<close> here. The other members of the class \<^verbatim>\<open>BlenderObject\<close>
  (\<^verbatim>\<open>file\<close>, \<^verbatim>\<open>tree\<close>, \<^verbatim>\<open>FMT\<close> and so on) are not attributes in this model.
\<close>

definition py_setattr :: "BlenderObject \<Rightarrow> string \<Rightarrow> pyval \<Rightarrow> error option \<times> BlenderObject" where
  "py_setattr obj name v =
     (if name \<in> set (t_pointers (o_type obj))
      then (Some (AttributeError ''Attribute cannot be setted''), obj)
      else (None, BlenderObject (o_type obj) (o_file obj) (AList.update name v (o_attrs obj))))"

definition py_delattr :: "BlenderObject \<Rightarrow> string \<Rightarrow> error option \<times> BlenderObject" where
  "py_delattr obj name =
     (if name \<in> set (t_pointers (o_type obj))
      then (Some (AttributeError ''Attribute cannot be deleted''), obj)
      else if name \<in> fst ` set (o_attrs obj)
      then (None, BlenderObject (o_type obj) (o_file obj) (AList.delete name (o_attrs obj)))
      else (Some (MissingAttribute name), obj))"

definition setattr :: "BlenderObject \<Rightarrow> string \<Rightarrow> pyval \<Rightarrow> error + BlenderObject" where
  "setattr obj name v = (case py_setattr obj name v of (Some e, _) \<Rightarrow> Inl e | (None, obj') \<Rightarrow> Inr obj')"

definition instance_attr :: "BlenderObject \<Rightarrow> string \<Rightarrow> error + pyval" where
  "instance_attr obj name =
     (case map_of (o_attrs obj) name of None \<Rightarrow> Inl (MissingAttribute name) | Some v \<Rightarrow> Inr v)"

subsection \<open>The library module struct\<close>

text \<open>
  The part of \<^verbatim>\<open>struct.Struct\<close> that the formats of this program reach. A format is
  a byte-order character, \<^verbatim>\<open><\<close> or \<^verbatim>\<open>>\<close> (standard sizes, no padding), and items made
  of an optional decimal count and a code among \<^verbatim>\<open>x c s h H i I l L q Q f d\<close>. Any
  other format, and data whose length is not the size of the format, raises
  \<^verbatim>\<open>struct.error\<close>.
\<close>

definition valid_code :: "char \<Rightarrow> bool" where
  "valid_code c = (c \<in> set ''xcshHiIlLqQfd'')"

definition code_size :: "char \<Rightarrow> nat" where
  "code_size c =
     (if c \<in> set ''hH'' then 2 else if c \<in> set ''iIlLf'' then 4
      else if c \<in> set ''qQd'' then 8 else 1)"

function parse_items :: "string \<Rightarrow> (nat \<times> char) list option" where
  "parse_items [] = Some []"
| "parse_items (a # as) =
     (case dropWhile is_digit (a # as) of
        [] \<Rightarrow> None
      | c # r \<Rightarrow>
          if \<not> valid_code c then None
          else (case parse_items r of
                  None \<Rightarrow> None
                | Some its \<Rightarrow>
                    Some ((if is_digit a then nat (int_of_digits (takeWhile is_digit (a # as)))
                           else 1, c) # its)))"
  by pat_completeness auto
termination
proof (relation "measure length")
  fix a :: char and as c r
  assume "dropWhile is_digit (a # as) = c # r"
  then have "length (c # r) \<le> length (a # as)"
    by (metis length_dropWhile_le)
  then show "(r, a # as) \<in> measure length" by simp
qed simp

definition parse_fmt :: "string \<Rightarrow> (BlendFileEndian \<times> (nat \<times> char) list) option" where
  "parse_fmt fmt =
     (case fmt of
        [] \<Rightarrow> None
      | e # items \<Rightarrow>
          if e = CHR ''<'' then map_option (Pair Little) (parse_items items)
          else if e = CHR ''>'' then map_option (Pair Big) (parse_items items)
          else None)"

definition items_size :: "(nat \<times> char) list \<Rightarrow> nat" where
  "items_size its = sum_list (map (\<lambda>(n, c). n * code_size c) its)"

text \<open>The number a run of bytes spells, and its reading as a signed number.\<close>

definition uint_of :: "BlendFileEndian \<Rightarrow> bytes \<Rightarrow> int" where
  "uint_of e bs = foldl (\<lambda>a b. 256 * a + of_char b) 0 (if e = Little then rev bs else bs)"

definition sint_of :: "BlendFileEndian \<Rightarrow> bytes \<Rightarrow> int" where
  "sint_of e bs =
     (if 2 * uint_of e bs < 256 ^ length bs then uint_of e bs
      else uint_of e bs - 256 ^ length bs)"

definition unpack_one :: "BlendFileEndian \<Rightarrow> char \<Rightarrow> bytes \<Rightarrow> pyval" where
  "unpack_one e c bs =
     (if c = CHR ''c'' then PBytes bs
      else if c \<in> set ''hilq'' then PInt (sint_of e bs)
      else if c \<in> set ''HILQ'' then PInt (uint_of e bs)
      else PFloat (uint_of e bs))"

fun chunks :: "nat \<Rightarrow> nat \<Rightarrow> bytes \<Rightarrow> bytes list" where
  "chunks sz 0 bs = []"
| "chunks sz (Suc n) bs = take sz bs # chunks sz n (drop sz bs)"

fun unpack_items :: "BlendFileEndian \<Rightarrow> (nat \<times> char) list \<Rightarrow> bytes \<Rightarrow> pyval list" where
  "unpack_items e [] bs = []"
| "unpack_items e ((n, c) # its) bs =
     (if c = CHR ''x'' then []
      else if c = CHR ''s'' then [PBytes (take n bs)]
      else map (unpack_one e c) (chunks (code_size c) n bs))
     @ unpack_items e its (drop (n * code_size c) bs)"

definition calcsize :: "string \<Rightarrow> nat" where
  "calcsize fmt = (case parse_fmt fmt of None \<Rightarrow> 0 | Some (e, its) \<Rightarrow> items_size its)"

definition struct_unpack :: "string \<Rightarrow> bytes \<Rightarrow> error + pyval list" where
  "struct_unpack fmt bs =
     (case parse_fmt fmt of
        None \<Rightarrow> Inl StructError
      | Some (e, its) \<Rightarrow>
          if length bs \<noteq> items_size its then Inl StructError else Inr (unpack_items e its bs))"

subsection \<open>NamedStruct\<close>

text \<open>
  The fields of \<^verbatim>\<open>namedtuple(name, fmt_names, rename=True)\<close>: a name that is not an
  identifier, is a keyword, starts with an underscore or was seen before is replaced
  by an underscore and its position. The type name must be an identifier that is not
  a keyword. Names are ASCII here, and an identifier is a letter or an underscore
  followed by letters, digits and underscores.
\<close>

definition is_alpha :: "char \<Rightarrow> bool" where
  "is_alpha c =
     ((65 \<le> (of_char c :: nat) \<and> (of_char c :: nat) \<le> 90)
      \<or> (97 \<le> (of_char c :: nat) \<and> (of_char c :: nat) \<le> 122) \<or> c = CHR ''_'')"

definition isidentifier :: "string \<Rightarrow> bool" where
  "isidentifier n =
     (case n of [] \<Rightarrow> False | c # cs \<Rightarrow> is_alpha c \<and> list_all (\<lambda>x. is_alpha x \<or> is_digit x) cs)"

definition kwlist :: "string list" where
  "kwlist =
     [''False'', ''None'', ''True'', ''and'', ''as'', ''assert'', ''async'', ''await'',
      ''break'', ''class'', ''continue'', ''def'', ''del'', ''elif'', ''else'', ''except'',
      ''finally'', ''for'', ''from'', ''global'', ''if'', ''import'', ''in'', ''is'',
      ''lambda'', ''nonlocal'', ''not'', ''or'', ''pass'', ''raise'', ''return'', ''try'',
      ''while'', ''with'', ''yield'']"

definition iskeyword :: "string \<Rightarrow> bool" where
  "iskeyword n = (n \<in> set kwlist)"

fun rename_fields :: "nat \<Rightarrow> string list \<Rightarrow> string list \<Rightarrow> string list" where
  "rename_fields i seen [] = []"
| "rename_fields i seen (n # ns) =
     (if \<not> isidentifier n \<or> iskeyword n \<or> take 1 n = ''_'' \<or> n \<in> set seen
      then ''_'' @ str_nat i else n)
     # rename_fields (Suc i) (n # seen) ns"

definition namedtuple :: "string \<Rightarrow> string list \<Rightarrow> error + string list" where
  "namedtuple typename names =
     (if \<not> isidentifier typename \<or> iskeyword typename then Inl ValueError
      else Inr (rename_fields 0 [] names))"

text \<open>
  \<^verbatim>\<open>self.names(*values)\<close>: a named tuple takes exactly as many values as it has
  fields.
\<close>

definition make_tuple :: "string list \<Rightarrow> pyval list \<Rightarrow> error + pyval list" where
  "make_tuple names vals = (if length vals = length names then Inr vals else Inl TypeError)"

fun make_tuples :: "string list \<Rightarrow> string \<Rightarrow> bytes list \<Rightarrow> error + pyval list" where
  "make_tuples names fmt [] = Inr []"
| "make_tuples names fmt (d # ds) =
     then_do (struct_unpack fmt d) (\<lambda>vals.
     then_do (make_tuple names vals) (\<lambda>t.
     then_do (make_tuples names fmt ds) (\<lambda>ts. Inr (PNamedTuple names t # ts))))"

text \<open>
  \<^verbatim>\<open>NamedStruct.unpack\<close>: data longer than the format and a multiple of its size is
  unpacked into a tuple of named tuples, anything else into one named tuple. The
  result is the sequence that \<^verbatim>\<open>zip\<close> will walk. With a format of size 0 and data
  that is not empty, \<^verbatim>\<open>x % y\<close> raises.
\<close>

definition NamedStruct_unpack :: "string list \<Rightarrow> string \<Rightarrow> bytes \<Rightarrow> error + pyval list" where
  "NamedStruct_unpack names fmt bs =
     (let x = length bs; y = calcsize fmt
      in if x > y \<and> y = 0 then Inl ZeroDivisionError
         else if x > y \<and> x mod y = 0 then make_tuples names fmt (chunks y (x div y) bs)
         else then_do (struct_unpack fmt bs) (make_tuple names))"

subsection \<open>Unpacking an object\<close>

text \<open>
  The template \<^verbatim>\<open>(.+)_\d+_(\d+)\<close> of \<^verbatim>\<open>_set_fields\<close> and \<^verbatim>\<open>__eq__\<close>. Both use the first
  match of \<^verbatim>\<open>findall\<close> only. \<open>tail_template\<close> matches \<^verbatim>\<open>_\d+_(\d+)\<close> at the start of
  a string and gives the second group; a run of digits is always taken whole, since
  a shorter one would be followed by a digit. \<open>greedy_prefix\<close> is the first group at
  a fixed start: the longest prefix without a newline, of at least one character,
  after which the tail matches. The first match is at the leftmost start that has
  one.
\<close>

definition tail_template :: "string \<Rightarrow> string option" where
  "tail_template s =
     (case s of
        [] \<Rightarrow> None
      | u # r \<Rightarrow>
          if u = CHR ''_'' \<and> takeWhile is_digit r \<noteq> []
          then (case dropWhile is_digit r of
                  [] \<Rightarrow> None
                | v # r' \<Rightarrow>
                    if v = CHR ''_'' \<and> takeWhile is_digit r' \<noteq> []
                    then Some (takeWhile is_digit r') else None)
          else None)"

fun greedy_prefix :: "nat \<Rightarrow> string \<Rightarrow> (string \<times> string) option" where
  "greedy_prefix 0 s = None"
| "greedy_prefix (Suc e) s =
     (case tail_template (drop (Suc e) s) of
        Some g \<Rightarrow> if CHR 0x0A \<in> set (take (Suc e) s) then greedy_prefix e s
                  else Some (take (Suc e) s, g)
      | None \<Rightarrow> greedy_prefix e s)"

fun template_first :: "string \<Rightarrow> (string \<times> string) option" where
  "template_first [] = None"
| "template_first (c # cs) =
     (case greedy_prefix (length cs) (c # cs) of
        Some m \<Rightarrow> Some m
      | None \<Rightarrow> template_first cs)"

text \<open>
  \<^verbatim>\<open>BlenderObject._set_fields\<close>. The generator \<^verbatim>\<open>zip(names, data)\<close> ends the loop with
  \<^verbatim>\<open>StopIteration\<close>, which \<^verbatim>\<open>__new__\<close> catches: also in the middle of an array, whose
  attribute is then not set.
\<close>

function set_fields :: "string list \<Rightarrow> pyval list \<Rightarrow> BlenderObject \<Rightarrow> error + BlenderObject" where
  "set_fields [] vals obj = Inr obj"
| "set_fields (name # names) [] obj = Inr obj"
| "set_fields (name # names) (v # vals) obj =
     (case template_first name of
        None \<Rightarrow> then_do (setattr obj name v) (set_fields names vals)
      | Some (field_name, array_len) \<Rightarrow>
          (let k = nat (int_of_digits array_len - 1)
           in if min (length names) (length vals) < k then Inr obj
              else then_do (setattr obj field_name (PTuple (v # take k vals)))
                     (set_fields (drop k names) (drop k vals))))"
  by pat_completeness auto
termination
  by (relation "measure (\<lambda>(names, vals, obj). length names)") auto

text \<open>
  Slicing \<^verbatim>\<open>data[a:b]\<close> with two integers: a negative bound counts from the end, and
  both are brought into the range of the data.
\<close>

definition slice_bound :: "nat \<Rightarrow> int \<Rightarrow> nat" where
  "slice_bound n i = (if i < 0 then nat (int n + i) else min n (nat i))"

definition py_slice :: "'a list \<Rightarrow> int \<Rightarrow> int \<Rightarrow> 'a list" where
  "py_slice xs a b =
     take (slice_bound (length xs) b - slice_bound (length xs) a)
       (drop (slice_bound (length xs) a) xs)"

text \<open>
  \<^verbatim>\<open>BlenderObject.__new__\<close>: the nested objects of \<^verbatim>\<open>CLASSES\<close> first, each from its
  slice of the data, then the fields of the format.
\<close>

fun BlenderObject_new :: "BlenderObjectType \<Rightarrow> nat \<Rightarrow> bytes \<Rightarrow> error + BlenderObject"
  and new_classes ::
    "(BlenderObjectType \<times> (int \<times> int) \<times> string) list \<Rightarrow> nat \<Rightarrow> bytes \<Rightarrow> BlenderObject
      \<Rightarrow> error + BlenderObject" where
  "BlenderObject_new (BlenderObjectType nm ver names fmt classes ptrs) file bs =
     then_do (new_classes classes file bs
                (BlenderObject (BlenderObjectType nm ver names fmt classes ptrs) file [])) (\<lambda>obj.
     then_do (NamedStruct_unpack names fmt bs) (\<lambda>vals.
       set_fields names vals obj))"
| "new_classes [] file bs obj = Inr obj"
| "new_classes ((cls, (a, b), name) # rest) file bs obj =
     then_do (BlenderObject_new cls file (py_slice bs a b)) (\<lambda>sub.
     then_do (setattr obj name (PObj sub)) (\<lambda>obj'.
       new_classes rest file bs obj'))"

text \<open>
  \<^verbatim>\<open>BlenderObject.__eq__\<close>. The comparison of two attribute values is the equality of
  the values. Skipping the names of an array past the end of the names raises
  \<^verbatim>\<open>StopIteration\<close> out of the list comprehension.
\<close>

function eq_loop :: "string list \<Rightarrow> BlenderObject \<Rightarrow> BlenderObject \<Rightarrow> bool \<Rightarrow> error + bool" where
  "eq_loop [] self other eq = Inr eq"
| "eq_loop (name # names) self other eq =
     (case template_first name of
        None \<Rightarrow>
          then_do (instance_attr self name) (\<lambda>a.
          then_do (instance_attr other name) (\<lambda>b.
            eq_loop names self other (eq \<or> a = b)))
      | Some (field_name, array_len) \<Rightarrow>
          then_do (instance_attr self field_name) (\<lambda>a.
          then_do (instance_attr other field_name) (\<lambda>b.
            if length names < nat (int_of_digits array_len - 1) then Inl StopIteration
            else eq_loop (drop (nat (int_of_digits array_len - 1)) names) self other
                   (eq \<or> a = b))))"
  by pat_completeness auto
termination
  by (relation "measure (\<lambda>(names, self, other, eq). length names)") auto

definition BlenderObject_eq :: "BlenderObject \<Rightarrow> pyval \<Rightarrow> error + bool" where
  "BlenderObject_eq self other =
     (case other of
        PObj obj \<Rightarrow>
          if o_type obj \<noteq> o_type self then Inr False
          else eq_loop (t_names (o_type self)) self obj False
      | _ \<Rightarrow> Inr False)"

subsection \<open>Compiling a format\<close>

definition BASE_TYPES :: "(string \<times> char) list" where
  "BASE_TYPES =
     [(''float'', CHR ''f''), (''double'', CHR ''d''), (''int'', CHR ''i''),
      (''short'', CHR ''h''), (''ushort'', CHR ''H''), (''char'', CHR ''c''),
      (''long'', CHR ''l''), (''ulong'', CHR ''L''), (''uint64_t'', CHR ''Q''),
      (''int64_t'', CHR ''q'')]"

definition fix_name :: "string \<Rightarrow> string" where
  "fix_name n = (if take 1 n = ''_'' then ''f'' @ n else n)"

text \<open>
  The names \<^verbatim>\<open>compile_fmt\<close> gives one field: one for every item of an array that is
  not an array of characters, one otherwise.
\<close>

definition item_names :: "BlendStructField \<Rightarrow> string list" where
  "item_names f =
     (if sf_count f > 1 \<and> sf_type f \<noteq> ''char''
      then map (\<lambda>i. fix_name (sf_name f @ ''_'' @ str_nat i @ ''_'' @ str_int (sf_count f)))
             [0..<nat (sf_count f)]
      else [fix_name (sf_name f)])"

text \<open>
  \<^verbatim>\<open>BlenderObjectFactory.compile_fmt\<close>: the format and the names grow field by field,
  from left to right. A pointer adds its names with the prefix \<^verbatim>\<open>ptr_\<close>, a base type
  its names, any other type padding and no name.
\<close>

fun compile_fmt :: "BlendStructField list \<Rightarrow> string \<times> string list" where
  "compile_fmt [] = ([], [])"
| "compile_fmt (f # fs) =
     (let cnt = str_int (sf_count f);
          rest = compile_fmt fs
      in if sf_ptr f
         then (cnt @ ''P'' @ fst rest, map (\<lambda>n. ''ptr_'' @ n) (item_names f) @ snd rest)
         else (case map_of BASE_TYPES (sf_type f) of
                 Some c \<Rightarrow>
                   ((if sf_type f = ''char'' \<and> sf_count f > 1 then cnt @ ''s'' else cnt @ [c])
                      @ fst rest,
                    item_names f @ snd rest)
               | None \<Rightarrow> (str_int (sf_size f) @ ''x'' @ fst rest, snd rest)))"

text \<open>
  \<^verbatim>\<open>endian.value + fmt.replace('P', arch.value)\<close>.
\<close>

definition fmt_strct :: "BlenderFile \<Rightarrow> string \<Rightarrow> string" where
  "fmt_strct f fmt =
     (if endian (header f) = Little then CHR ''<'' else CHR ''>'')
     # map (\<lambda>c. if c = CHR ''P'' then (if arch (header f) = X64 then CHR ''Q'' else CHR ''I'')
                 else c) fmt"

subsection \<open>The state of the program\<close>

text \<open>
  A factory, as \<^verbatim>\<open>BlenderObjectFactory.__init__\<close> leaves it. \<open>file_ref\<close> is the weak
  reference to the file: the identifier of the file object.
\<close>

record BlenderObjectFactory =
  file_ref :: nat
  struct_dna :: BlendStructDNA
  sdna_index :: nat
  has_name :: bool
  object_type :: BlenderObjectType
  object_name :: string

text \<open>
  What the operations share and change: the file objects that are alive, by
  identifier; the class attribute \<^verbatim>\<open>BlenderObject.CACHE\<close> of weak references to types
  and the class attribute \<^verbatim>\<open>BlenderObjectFactory.CACHE\<close> of weak references to
  factories, both by version and name; the factory objects that are alive; and the
  \<^verbatim>\<open>value\<close> of the one \<^verbatim>\<open>AddressLookup\<close> that a type has for each pointer field. A
  weak reference to a type that was collected is an absent entry of \<open>types\<close>; a
  weak reference to a factory is the identifier of the factory, dead when the factory
  is no longer among \<open>factories\<close>. \<open>next_factory\<close> is the identifier the next new
  factory gets. Nothing is collected while an operation runs.
\<close>

record state =
  files :: "nat \<Rightarrow> BlenderFile option"
  types :: "BlendVersionInfo \<times> string \<Rightarrow> BlenderObjectType option"
  lookups :: "BlenderObjectType \<times> string \<Rightarrow> pyval"
  factories :: "nat \<Rightarrow> BlenderObjectFactory option"
  fact_cache :: "BlendVersionInfo \<times> string \<Rightarrow> nat option"
  next_factory :: nat

text \<open>
  The property \<^verbatim>\<open>file\<close> of objects and factories: the weak reference gives the file
  object while it is alive, closed or not.
\<close>

definition deref_file :: "state \<Rightarrow> nat \<Rightarrow> error + BlenderFile" where
  "deref_file st fid =
     (case files st fid of
        None \<Rightarrow> Inl (RuntimeError ''Parent blend file was freed'')
      | Some f \<Rightarrow> Inr f)"

text \<open>\<^verbatim>\<open>BlenderFile.close\<close> closes the handle of the file object, which stays alive.\<close>

definition close :: "nat \<Rightarrow> state \<Rightarrow> state" where
  "close fid st =
     st\<lparr>files := (files st)(fid := map_option (\<lambda>f. f\<lparr>handle_closed := True\<rparr>) (files st fid))\<rparr>"

text \<open>Dropping the last reference to a file object: \<^verbatim>\<open>del blend\<close>.\<close>

definition free_file :: "nat \<Rightarrow> state \<Rightarrow> state" where
  "free_file fid st = st\<lparr>files := (files st)(fid := None)\<rparr>"

subsection \<open>Building a type\<close>

text \<open>
  \<^verbatim>\<open>BlenderFile._struct_lookup\<close>: the first structure of the index whose type has the
  given number.
\<close>

definition struct_lookup :: "BlenderFile \<Rightarrow> int \<Rightarrow> error + BlendStructDNA" where
  "struct_lookup f i =
     (case find (\<lambda>s. dna_index s = i) (structures (index f)) of
        Some s \<Rightarrow> Inr s
      | None \<Rightarrow>
          if i > int (length (type_names (index f))) \<or> i < 0
          then Inl (BlenderFileReadException
                 (''Type index '' @ str_int i @ '' is not valid for this blend file''))
          else then_do (py_get (type_names (index f)) i) (\<lambda>tn.
                 Inl (BlenderFileReadException
                   (''Type '' @ tn @ '' is not associated with a structure''))))"

text \<open>
  \<^verbatim>\<open>BlenderObjectFactory._build_object_type\<close>. The first argument bounds the depth of
  the recursion, as the interpreter does. A type of the same version and name that
  is still alive is returned as it is. Otherwise the fields are exported, the types of
  the fields that are structures themselves are built, in order, each with the slice
  of the data it will read, and the new type is entered into the cache.
\<close>

fun build_object_type ::
    "nat \<Rightarrow> BlenderFile \<Rightarrow> BlendStructDNA \<Rightarrow> state \<Rightarrow> (error + BlenderObjectType) \<times> state"
  and build_dependencies ::
    "nat \<Rightarrow> BlenderFile \<Rightarrow> (BlendStructField \<times> BlendStructFieldDNA) list \<Rightarrow> int \<Rightarrow> state
      \<Rightarrow> (error + (BlenderObjectType \<times> (int \<times> int) \<times> string) list) \<times> state" where
  "build_object_type 0 f s st = (Inl RecursionError, st)"
| "build_object_type (Suc k) f s st =
     (case py_get (type_names (index f)) (dna_index s) of
        Inl e \<Rightarrow> (Inl e, st)
      | Inr name \<Rightarrow>
         (case types st (version (header f), name) of
            Some t \<Rightarrow> (Inr t, st)
          | None \<Rightarrow>
             (case export_struct f s of
                Inl e \<Rightarrow> (Inl e, st)
              | Inr bs \<Rightarrow>
                 (case build_dependencies k f (zip (bs_fields bs) (dna_fields s)) 0 st of
                    (Inl e, st1) \<Rightarrow> (Inl e, st1)
                  | (Inr deps, st1) \<Rightarrow>
                     (case namedtuple (bs_name bs) (snd (compile_fmt (bs_fields bs))) of
                        Inl e \<Rightarrow> (Inl e, st1)
                      | Inr names \<Rightarrow>
                         (if parse_fmt (fmt_strct f (fst (compile_fmt (bs_fields bs)))) = None
                          then (Inl StructError, st1)
                          else
                            let t = BlenderObjectType (bs_name bs) (version (header f)) names
                                      (fmt_strct f (fst (compile_fmt (bs_fields bs)))) deps
                                      (map sf_name (filter sf_ptr (bs_fields bs)))
                            in (Inr t,
                                st1\<lparr>types := (types st1)((version (header f), bs_name bs) \<mapsto> t)\<rparr>)))))))"
| "build_dependencies k f [] offset st = (Inr [], st)"
| "build_dependencies k f ((fld, d) # rest) offset st =
     (if map_of BASE_TYPES (sf_type fld) = None \<and> \<not> sf_ptr fld
      then (case struct_lookup f (index_type d) of
              Inl e \<Rightarrow> (Inl e, st)
            | Inr tmp_dna \<Rightarrow>
               (case build_object_type k f tmp_dna st of
                  (Inl e, st1) \<Rightarrow> (Inl e, st1)
                | (Inr t, st1) \<Rightarrow>
                   (case build_dependencies k f rest (offset + sf_size fld) st1 of
                      (Inl e, st2) \<Rightarrow> (Inl e, st2)
                    | (Inr deps, st2) \<Rightarrow>
                        (Inr ((t, (offset, offset + sf_size fld), sf_name fld) # deps), st2))))
      else build_dependencies k f rest (offset + sf_size fld) st)"

subsection \<open>Reading blocks and following pointers\<close>

text \<open>
  \<^verbatim>\<open>BlenderFile._read_block\<close>: \<^verbatim>\<open>seek\<close> on a closed handle raises \<^verbatim>\<open>ValueError\<close>;
  \<^verbatim>\<open>read(n)\<close> gives at most \<^verbatim>\<open>n\<close> bytes, everything that is left for \<^verbatim>\<open>n = -1\<close>, and
  raises \<^verbatim>\<open>ValueError\<close> for a smaller \<^verbatim>\<open>n\<close>.
\<close>

definition read_block :: "BlenderFile \<Rightarrow> BlendBlockHeader \<Rightarrow> nat \<Rightarrow> error + bytes" where
  "read_block f b offset =
     (if handle_closed f then Inl ValueError
      else if b_size b < - 1 then Inl ValueError
      else if b_size b = - 1 then Inr (drop offset (handle_data f))
      else Inr (take (nat (b_size b)) (drop offset (handle_data f))))"

text \<open>
  The loop of \<^verbatim>\<open>_from_address\<close>: it runs over the whole table and has no \<^verbatim>\<open>break\<close>, so
  every block with the address overwrites the one found before.
\<close>

definition scan_blocks ::
  "(BlendBlockHeader \<times> nat) list \<Rightarrow> int \<Rightarrow> (BlendBlockHeader \<times> nat) option" where
  "scan_blocks bs ptr =
     foldl (\<lambda>found (b, offset). if b_addr b = ptr then Some (b, offset) else found) None bs"

fun new_objects :: "BlenderObjectType \<Rightarrow> nat \<Rightarrow> bytes list \<Rightarrow> error + pyval list" where
  "new_objects t file [] = Inr []"
| "new_objects t file (d # ds) =
     then_do (BlenderObject_new t file d) (\<lambda>obj.
     then_do (new_objects t file ds) (\<lambda>objs. Inr (PObj obj # objs)))"

text \<open>
  What \<^verbatim>\<open>_from_address\<close> does with the block it found: one object for a block of count
  1, else a tuple of objects, one for every \<^verbatim>\<open>x\<close> of \<^verbatim>\<open>range(0, block.size, step)\<close>.
\<close>

definition decode_block ::
  "nat \<Rightarrow> nat \<Rightarrow> BlenderFile \<Rightarrow> BlendBlockHeader \<Rightarrow> nat \<Rightarrow> state \<Rightarrow> (error + pyval) \<times> state" where
  "decode_block fuel fid f b offset st =
     (case py_get (structures (index f)) (b_sdna b) of
        Inl e \<Rightarrow> (Inl e, st)
      | Inr dna \<Rightarrow>
         (case read_block f b offset of
            Inl e \<Rightarrow> (Inl e, st)
          | Inr block_data \<Rightarrow>
             (case build_object_type fuel f dna st of
                (Inl e, st1) \<Rightarrow> (Inl e, st1)
              | (Inr t, st1) \<Rightarrow>
                 (if b_count b = 1
                  then (then_do (BlenderObject_new t fid block_data) (\<lambda>obj. Inr (PObj obj)), st1)
                  else if calcsize (t_format t) = 0 then (Inl ValueError, st1)
                  else
                    let step = calcsize (t_format t);
                        n = nat ((b_size b + int step - 1) div int step)
                    in (then_do
                          (new_objects t fid
                             (map (\<lambda>i. py_slice block_data (int (i * step)) (int (i * step + step)))
                                [0..<n]))
                          (\<lambda>objs. Inr (PTuple objs)), st1)))))"

definition from_address ::
  "nat \<Rightarrow> nat \<Rightarrow> BlenderFile \<Rightarrow> int \<Rightarrow> state \<Rightarrow> (error + pyval) \<times> state" where
  "from_address fuel fid f ptr st =
     (case scan_blocks (blocks f) ptr of
        None \<Rightarrow>
          (Inl (BlenderFileReadException
                  (''Cannot find the address '' @ hex ptr @ '' in the blend file'')), st)
      | Some (b, offset) \<Rightarrow> decode_block fuel fid f b offset st)"

text \<open>
  \<^verbatim>\<open>_from_addresses\<close>, from left to right. An element that is not an integer is
  different from 0 and equal to no address, and \<^verbatim>\<open>hex\<close> raises \<^verbatim>\<open>TypeError\<close> on it.
\<close>

fun from_addresses ::
  "nat \<Rightarrow> nat \<Rightarrow> BlenderFile \<Rightarrow> pyval list \<Rightarrow> state \<Rightarrow> (error + pyval list) \<times> state" where
  "from_addresses fuel fid f [] st = (Inr [], st)"
| "from_addresses fuel fid f (p # ps) st =
     (case p of
        PInt i \<Rightarrow>
          (case (if i \<noteq> 0 then from_address fuel fid f i st else (Inr PNone, st)) of
             (Inl e, st1) \<Rightarrow> (Inl e, st1)
           | (Inr v, st1) \<Rightarrow>
              (case from_addresses fuel fid f ps st1 of
                 (Inl e, st2) \<Rightarrow> (Inl e, st2)
               | (Inr vs, st2) \<Rightarrow> (Inr (v # vs), st2)))
      | _ \<Rightarrow> (Inl TypeError, st))"

text \<open>
  \<^verbatim>\<open>AddressLookup.__get__\<close> for the pointer field \<open>name\<close> of the type of the
  instance. The descriptor is an attribute of the type: its \<^verbatim>\<open>value\<close> is shared by all
  objects of the type, is written only by the two branches that follow a pointer, and
  is what every call returns.
\<close>

definition AddressLookup_get ::
  "nat \<Rightarrow> string \<Rightarrow> BlenderObject \<Rightarrow> state \<Rightarrow> (error + pyval) \<times> state" where
  "AddressLookup_get fuel name instance st =
     (case instance_attr instance (''ptr_'' @ name) of
        Inl e \<Rightarrow> (Inl e, st)
      | Inr ptr \<Rightarrow>
         (case ptr of
            PInt p \<Rightarrow>
              if p \<noteq> 0
              then (case deref_file st (o_file instance) of
                      Inl e \<Rightarrow> (Inl e, st)
                    | Inr f \<Rightarrow>
                       (case from_address fuel (o_file instance) f p st of
                          (Inl e, st1) \<Rightarrow> (Inl e, st1)
                        | (Inr v, st1) \<Rightarrow>
                            (Inr v, st1\<lparr>lookups := (lookups st1)((o_type instance, name) := v)\<rparr>)))
              else (Inr (lookups st (o_type instance, name)), st)
          | PTuple ps \<Rightarrow>
              (case deref_file st (o_file instance) of
                 Inl e \<Rightarrow> (Inl e, st)
               | Inr f \<Rightarrow>
                  (case from_addresses fuel (o_file instance) f ps st of
                     (Inl e, st1) \<Rightarrow> (Inl e, st1)
                   | (Inr vs, st1) \<Rightarrow>
                       (Inr (PList vs),
                        st1\<lparr>lookups := (lookups st1)((o_type instance, name) := PList vs)\<rparr>)))
          | _ \<Rightarrow> (Inr (lookups st (o_type instance, name)), st)))"

text \<open>
  Reading the attribute \<open>name\<close> of a value: through the descriptor for a pointer field
  of an object, from the instance for any other name of an object, by field name for
  a named tuple.
\<close>

definition getattr :: "nat \<Rightarrow> pyval \<Rightarrow> string \<Rightarrow> state \<Rightarrow> (error + pyval) \<times> state" where
  "getattr fuel v name st =
     (case v of
        PObj obj \<Rightarrow>
          if name \<in> set (t_pointers (o_type obj)) then AddressLookup_get fuel name obj st
          else (instance_attr obj name, st)
      | PNamedTuple ns vs \<Rightarrow>
          (case map_of (zip ns vs) name of
             Some x \<Rightarrow> (Inr x, st)
           | None \<Rightarrow> (Inl (MissingAttribute name), st))
      | _ \<Rightarrow> (Inl (MissingAttribute name), st))"

subsection \<open>Factories\<close>

text \<open>\<^verbatim>\<open>'ID' in (dnatypes[ftype] for ftype, fname in dnafields)\<close>, which stops at the
  first \<^verbatim>\<open>ID\<close>.\<close>

fun has_ID :: "string list \<Rightarrow> BlendStructFieldDNA list \<Rightarrow> error + bool" where
  "has_ID tn [] = Inr False"
| "has_ID tn (d # ds) =
     then_do (py_get tn (index_type d)) (\<lambda>t. if t = ''ID'' then Inr True else has_ID tn ds)"

text \<open>
  \<^verbatim>\<open>BlenderObjectFactory.__init__\<close>. When no structure has the type, \<^verbatim>\<open>self.struct_dna\<close>
  was never set and reading it raises.
\<close>

definition BlenderObjectFactory_init ::
  "nat \<Rightarrow> nat \<Rightarrow> BlenderFile \<Rightarrow> int \<Rightarrow> state \<Rightarrow> (error + BlenderObjectFactory) \<times> state" where
  "BlenderObjectFactory_init fuel fid f type_name_index st =
     (case find (\<lambda>(i, s). dna_index s = type_name_index) (enumerate 0 (structures (index f))) of
        None \<Rightarrow> (Inl (MissingAttribute ''struct_dna''), st)
      | Some (i, dna) \<Rightarrow>
         (case has_ID (type_names (index f)) (dna_fields dna) of
            Inl e \<Rightarrow> (Inl e, st)
          | Inr hn \<Rightarrow>
             (case build_object_type fuel f dna st of
                (Inl e, st1) \<Rightarrow> (Inl e, st1)
              | (Inr t, st1) \<Rightarrow>
                 (case py_get (type_names (index f)) (dna_index dna) of
                    Inl e \<Rightarrow> (Inl e, st1)
                  | Inr on \<Rightarrow>
                      (Inr \<lparr>file_ref = fid, struct_dna = dna, sdna_index = i, has_name = hn,
                            object_type = t, object_name = on\<rparr>, st1)))))"

text \<open>\<^verbatim>\<open>BlenderObjectFactory.__len__\<close>.\<close>

definition factory_len :: "BlenderObjectFactory \<Rightarrow> state \<Rightarrow> error + int" where
  "factory_len F st =
     then_do (deref_file st (file_ref F)) (\<lambda>f.
       Inr (int (length (filter (\<lambda>(b, offset). b_sdna b = int (sdna_index F)) (blocks f)))))"

text \<open>
  \<^verbatim>\<open>BlenderObjectFactory.__iter__\<close>, run to its end as \<^verbatim>\<open>list(factory)\<close> does: the objects
  of the blocks of the structure, in the order of the table, or the first exception.
\<close>

fun iter_blocks ::
  "BlenderObjectFactory \<Rightarrow> BlenderFile \<Rightarrow> (BlendBlockHeader \<times> nat) list \<Rightarrow> error + BlenderObject list" where
  "iter_blocks F f [] = Inr []"
| "iter_blocks F f ((b, offset) # rest) =
     (if b_sdna b = int (sdna_index F)
      then then_do (read_block f b offset) (\<lambda>block_data.
           then_do (BlenderObject_new (object_type F) (file_ref F) block_data) (\<lambda>obj.
           then_do (iter_blocks F f rest) (\<lambda>objs. Inr (obj # objs))))
      else iter_blocks F f rest)"

definition factory_iter :: "BlenderObjectFactory \<Rightarrow> state \<Rightarrow> error + BlenderObject list" where
  "factory_iter F st = then_do (deref_file st (file_ref F)) (\<lambda>f. iter_blocks F f (blocks f))"

text \<open>
  The test \<^verbatim>\<open>_name[2:_name.index(0)] == name_bytes\<close> of \<^verbatim>\<open>find_by_name\<close>. On bytes,
  \<^verbatim>\<open>index(0)\<close> is the position of the first null byte and raises \<^verbatim>\<open>ValueError\<close> when
  there is none. A tuple or a list has \<^verbatim>\<open>index\<close> too, and a slice of it is never equal
  to bytes. The name asked for is ASCII, so \<^verbatim>\<open>name.encode()\<close> is the name.
\<close>

definition name_matches :: "pyval \<Rightarrow> string \<Rightarrow> error + bool" where
  "name_matches v n =
     (case v of
        PBytes bs \<Rightarrow>
          if CHR 0x00 \<in> set bs
          then Inr (py_slice bs 2 (int (length (takeWhile (\<lambda>c. c \<noteq> CHR 0x00) bs))) = n)
          else Inl ValueError
      | PTuple vs \<Rightarrow> if PInt 0 \<in> set vs then Inr False else Inl ValueError
      | PNamedTuple ns vs \<Rightarrow> if PInt 0 \<in> set vs then Inr False else Inl ValueError
      | PList vs \<Rightarrow> if PInt 0 \<in> set vs then Inr False else Inl ValueError
      | _ \<Rightarrow> Inl (MissingAttribute ''index''))"

text \<open>
  The loop of \<^verbatim>\<open>BlenderObjectFactory.find_by_name\<close> over the generator of
  \<^verbatim>\<open>__iter__\<close>: an object is built only when the loop reaches its block.
\<close>

fun find_loop ::
  "nat \<Rightarrow> BlenderObjectFactory \<Rightarrow> BlenderFile \<Rightarrow> (BlendBlockHeader \<times> nat) list \<Rightarrow> string \<Rightarrow> state
    \<Rightarrow> (error + BlenderObject) \<times> state" where
  "find_loop fuel F f [] n st =
     (Inl (KeyError (''File do not have '' @ object_name F @ '' objects named ''
                     @ [CHR 0x27] @ n @ [CHR 0x27])), st)"
| "find_loop fuel F f ((b, offset) # rest) n st =
     (if b_sdna b = int (sdna_index F)
      then (case then_do (read_block f b offset)
                   (BlenderObject_new (object_type F) (file_ref F)) of
              Inl e \<Rightarrow> (Inl e, st)
            | Inr obj \<Rightarrow>
               (case getattr fuel (PObj obj) ''id'' st of
                  (Inl e, st1) \<Rightarrow> (Inl e, st1)
                | (Inr idv, st1) \<Rightarrow>
                   (case getattr fuel idv ''name'' st1 of
                      (Inl e, st2) \<Rightarrow> (Inl e, st2)
                    | (Inr nm, st2) \<Rightarrow>
                       (case name_matches nm n of
                          Inl e \<Rightarrow> (Inl e, st2)
                        | Inr True \<Rightarrow> (Inr obj, st2)
                        | Inr False \<Rightarrow> find_loop fuel F f rest n st2))))
      else find_loop fuel F f rest n st)"

definition find_by_name ::
  "nat \<Rightarrow> BlenderObjectFactory \<Rightarrow> string \<Rightarrow> state \<Rightarrow> (error + BlenderObject) \<times> state" where
  "find_by_name fuel F n st =
     (if \<not> has_name F
      then (Inl (BlenderFileReadException ''Object type do not have a name''), st)
      else (case deref_file st (file_ref F) of
              Inl e \<Rightarrow> (Inl e, st)
            | Inr f \<Rightarrow> find_loop fuel F f (blocks f) n st))"

subsection \<open>Listing a type\<close>

text \<open>
  \<^verbatim>\<open>tuple.index\<close>: the position of the first element equal to the argument.
\<close>

definition index_of :: "'a list \<Rightarrow> 'a \<Rightarrow> nat" where
  "index_of xs x = length (takeWhile (\<lambda>y. y \<noteq> x) xs)"

text \<open>
  \<^verbatim>\<open>BlenderFile.list\<close> gives a factory, here by its identifier. A weak reference that
  is absent or dead makes a new factory, which is entered into the cache; the
  \<^verbatim>\<open>ValueError\<close> of an unknown type name, and any other \<^verbatim>\<open>ValueError\<close> raised while the
  factory is made, becomes a read exception.
\<close>

definition cached_factory :: "state \<Rightarrow> BlendVersionInfo \<times> string \<Rightarrow> nat option" where
  "cached_factory st key =
     (case fact_cache st key of
        None \<Rightarrow> None
      | Some i \<Rightarrow> (case factories st i of None \<Rightarrow> None | Some F \<Rightarrow> Some i))"

definition list_factory ::
  "nat \<Rightarrow> nat \<Rightarrow> BlenderFile \<Rightarrow> string \<Rightarrow> state \<Rightarrow> (error + nat) \<times> state" where
  "list_factory fuel fid f type_name st =
     (case cached_factory st (version (header f), type_name) of
        Some i \<Rightarrow> (Inr i, st)
      | None \<Rightarrow>
          if type_name \<notin> set (type_names (index f))
          then (Inl (BlenderFileReadException
                       (''Data type '' @ type_name @ '' could not be found in the blend file'')), st)
          else (case BlenderObjectFactory_init fuel fid f
                       (int (index_of (type_names (index f)) type_name)) st of
                  (Inl e, st1) \<Rightarrow>
                    (if e = ValueError
                     then (Inl (BlenderFileReadException
                             (''Data type '' @ type_name @ '' could not be found in the blend file'')),
                           st1)
                     else (Inl e, st1))
                | (Inr F, st1) \<Rightarrow>
                    (Inr (next_factory st1),
                     st1\<lparr>factories := (factories st1)(next_factory st1 \<mapsto> F),
                         fact_cache := (fact_cache st1)((version (header f), type_name)
                                          \<mapsto> next_factory st1),
                         next_factory := Suc (next_factory st1)\<rparr>)))"

text \<open>
  A collection after the last strong reference to a factory, or to a type, is gone.
  With the type go its descriptors.
\<close>

definition collect_factory :: "nat \<Rightarrow> state \<Rightarrow> state" where
  "collect_factory i st = st\<lparr>factories := (factories st)(i := None)\<rparr>"

definition collect_type :: "BlendVersionInfo \<times> string \<Rightarrow> state \<Rightarrow> state" where
  "collect_type key st =
     st\<lparr>types := (types st)(key := None),
        lookups := (\<lambda>(t, n). if Some t = types st key then PNone else lookups st (t, n))\<rparr>"

subsection \<open>The type a file determines\<close>

text \<open>
  The type that \<^verbatim>\<open>_build_object_type\<close> builds for a structure when it finds nothing in
  the cache, for the structure and for every structure nested in it: a function of the
  file alone. It is the yardstick for the content of the cache, not a part of the
  program.
\<close>

fun layout :: "nat \<Rightarrow> BlenderFile \<Rightarrow> BlendStructDNA \<Rightarrow> error + BlenderObjectType"
  and layout_dependencies ::
    "nat \<Rightarrow> BlenderFile \<Rightarrow> (BlendStructField \<times> BlendStructFieldDNA) list \<Rightarrow> int
      \<Rightarrow> error + (BlenderObjectType \<times> (int \<times> int) \<times> string) list" where
  "layout 0 f s = Inl RecursionError"
| "layout (Suc k) f s =
     then_do (export_struct f s) (\<lambda>bs.
     then_do (layout_dependencies k f (zip (bs_fields bs) (dna_fields s)) 0) (\<lambda>deps.
     then_do (namedtuple (bs_name bs) (snd (compile_fmt (bs_fields bs)))) (\<lambda>names.
       if parse_fmt (fmt_strct f (fst (compile_fmt (bs_fields bs)))) = None
       then Inl StructError
       else Inr (BlenderObjectType (bs_name bs) (version (header f)) names
                   (fmt_strct f (fst (compile_fmt (bs_fields bs)))) deps
                   (map sf_name (filter sf_ptr (bs_fields bs)))))))"
| "layout_dependencies k f [] offset = Inr []"
| "layout_dependencies k f ((fld, d) # rest) offset =
     (if map_of BASE_TYPES (sf_type fld) = None \<and> \<not> sf_ptr fld
      then then_do (struct_lookup f (index_type d)) (\<lambda>tmp_dna.
           then_do (layout k f tmp_dna) (\<lambda>t.
           then_do (layout_dependencies k f rest (offset + sf_size fld)) (\<lambda>deps.
             Inr ((t, (offset, offset + sf_size fld), sf_name fld) # deps))))
      else layout_dependencies k f rest (offset + sf_size fld))"

definition has_layout :: "BlenderFile \<Rightarrow> BlendStructDNA \<Rightarrow> BlenderObjectType \<Rightarrow> bool" where
  "has_layout f s t = (\<exists>k. layout k f s = Inr t)"

text \<open>
  No two structures of the index have the same type name, and the types of this
  version that are alive in the cache under the name of a structure of the file are
  the types the file determines: the assumption under which files of one version
  share their types.
\<close>

definition unique_names :: "BlenderFile \<Rightarrow> bool" where
  "unique_names f =
     distinct (map (\<lambda>s. py_get (type_names (index f)) (dna_index s)) (structures (index f)))"

definition consistent :: "BlenderFile \<Rightarrow> state \<Rightarrow> bool" where
  "consistent f st =
     (\<forall>s \<in> set (structures (index f)). \<forall>name t.
        py_get (type_names (index f)) (dna_index s) = Inr name
        \<and> types st (version (header f), name) = Some t \<longrightarrow> has_layout f s t)"

subsection \<open>A small file\<close>

text \<open>
  The state of a \<^verbatim>\<open>BlenderFile\<close> for a little-endian 64-bit file of version 2.77 with
  five structures and three data blocks: a \<^verbatim>\<open>World\<close> at address 4096 and two
  \<^verbatim>\<open>Scene\<close>s, the first pointing to the world, the second with a null pointer.
  \<^verbatim>\<open>handle_data\<close> lists the bytes of the file up to the end of the last data block;
  the index block and the end block that follow are read by \<^verbatim>\<open>__init__\<close> only.
\<close>

definition ex_index :: BlendIndex where
  "ex_index =
     \<lparr>field_names = [''*next'', ''name[8]'', ''id'', ''aodist'', ''*world'', ''*mtex[18]'',
                      ''_pad[2]'', ''xmin'', ''xmax'', ''*mat[4]''],
      type_names = [''int'', ''char'', ''ID'', ''World'', ''Scene'', ''rctf'', ''MTex''],
      type_sizes = [4, 1, 16, 20, 24, 8, 16],
      structures =
        [\<lparr>dna_index = 2, dna_fields = [\<lparr>index_type = 2, index_name = 0\<rparr>,
                                         \<lparr>index_type = 1, index_name = 1\<rparr>]\<rparr>,
         \<lparr>dna_index = 3, dna_fields = [\<lparr>index_type = 2, index_name = 2\<rparr>,
                                         \<lparr>index_type = 0, index_name = 3\<rparr>]\<rparr>,
         \<lparr>dna_index = 4, dna_fields = [\<lparr>index_type = 2, index_name = 2\<rparr>,
                                         \<lparr>index_type = 3, index_name = 4\<rparr>]\<rparr>,
         \<lparr>dna_index = 5, dna_fields = [\<lparr>index_type = 0, index_name = 7\<rparr>,
                                         \<lparr>index_type = 0, index_name = 8\<rparr>]\<rparr>,
         \<lparr>dna_index = 6, dna_fields = [\<lparr>index_type = 0, index_name = 6\<rparr>,
                                         \<lparr>index_type = 1, index_name = 1\<rparr>]\<rparr>]\<rparr>"

definition nul :: "nat \<Rightarrow> bytes" where
  "nul k = replicate k (CHR 0x00)"

definition ex_data :: bytes where
  "ex_data =
     ''BLENDER-v277''
     @ ''WO'' @ nul 2 @ [CHR 0x14] @ nul 3 @ [CHR 0x00, CHR 0x10] @ nul 6
       @ [CHR 0x01] @ nul 3 @ [CHR 0x01] @ nul 3
     @ nul 8 @ ''WOSky'' @ nul 3 @ [CHR 0x07] @ nul 3
     @ ''SC'' @ nul 2 @ [CHR 0x18] @ nul 3 @ [CHR 0x00, CHR 0x20] @ nul 6
       @ [CHR 0x02] @ nul 3 @ [CHR 0x01] @ nul 3
     @ nul 8 @ ''SCMain'' @ nul 2 @ [CHR 0x00, CHR 0x10] @ nul 6
     @ ''SC'' @ nul 2 @ [CHR 0x18] @ nul 3 @ [CHR 0x00, CHR 0x30] @ nul 6
       @ [CHR 0x02] @ nul 3 @ [CHR 0x01] @ nul 3
     @ nul 8 @ ''SCBack'' @ nul 2 @ nul 8"

definition ex_blocks :: "(BlendBlockHeader \<times> nat) list" where
  "ex_blocks =
     [(\<lparr>b_code = ''WO'' @ nul 2, b_size = 20, b_addr = 4096, b_sdna = 1, b_count = 1\<rparr>, 36),
      (\<lparr>b_code = ''SC'' @ nul 2, b_size = 24, b_addr = 8192, b_sdna = 2, b_count = 1\<rparr>, 80),
      (\<lparr>b_code = ''SC'' @ nul 2, b_size = 24, b_addr = 12288, b_sdna = 2, b_count = 1\<rparr>, 128)]"

definition ex_file :: BlenderFile where
  "ex_file =
     \<lparr>header = \<lparr>version = \<lparr>major = 2, minor = 7, rev_num = 7\<rparr>, arch = X64, endian = Little\<rparr>,
      handle_data = ex_data, handle_closed = False, blocks = ex_blocks, index = ex_index\<rparr>"

text \<open>
  The state of a program that has opened this file, as object 0, and nothing else.
\<close>

definition ex_state :: state where
  "ex_state =
     \<lparr>files = [0 \<mapsto> ex_file], types = (\<lambda>k. None), lookups = (\<lambda>k. PNone),
      factories = (\<lambda>i. None), fact_cache = (\<lambda>k. None), next_factory = 0\<rparr>"

text \<open>The types, factories and objects that the file gives.\<close>

definition ex_version :: BlendVersionInfo where
  "ex_version = \<lparr>major = 2, minor = 7, rev_num = 7\<rparr>"

definition ex_ID_type :: BlenderObjectType where
  "ex_ID_type = BlenderObjectType ''ID'' ex_version [''ptr_next'', ''name''] ''<1Q8s'' [] [''next'']"

definition ex_World_type :: BlenderObjectType where
  "ex_World_type =
     BlenderObjectType ''World'' ex_version [''aodist''] ''<16x1i''
       [(ex_ID_type, (0, 16), ''id'')] []"

definition ex_Scene_type :: BlenderObjectType where
  "ex_Scene_type =
     BlenderObjectType ''Scene'' ex_version [''ptr_world''] ''<16x1Q''
       [(ex_ID_type, (0, 16), ''id'')] [''world'']"

definition ex_rctf_type :: BlenderObjectType where
  "ex_rctf_type = BlenderObjectType ''rctf'' ex_version [''xmin'', ''xmax''] ''<1i1i'' [] []"



definition ex_id :: "bytes \<Rightarrow> pyval" where
  "ex_id nm = PObj (BlenderObject ex_ID_type 0 [(''ptr_next'', PInt 0), (''name'', PBytes nm)])"

definition ex_world :: BlenderObject where
  "ex_world =
     BlenderObject ex_World_type 0 [(''id'', ex_id (''WOSky'' @ nul 3)), (''aodist'', PInt 7)]"

definition ex_scene_a :: BlenderObject where
  "ex_scene_a =
     BlenderObject ex_Scene_type 0
       [(''id'', ex_id (''SCMain'' @ nul 2)), (''ptr_world'', PInt 4096)]"

definition ex_scene_b :: BlenderObject where
  "ex_scene_b =
     BlenderObject ex_Scene_type 0
       [(''id'', ex_id (''SCBack'' @ nul 2)), (''ptr_world'', PInt 0)]"

definition ex_world_factory :: BlenderObjectFactory where
  "ex_world_factory =
     \<lparr>file_ref = 0,
      struct_dna = \<lparr>dna_index = 3, dna_fields = [\<lparr>index_type = 2, index_name = 2\<rparr>,
                                                \<lparr>index_type = 0, index_name = 3\<rparr>]\<rparr>,
      sdna_index = 1, has_name = True, object_type = ex_World_type, object_name = ''World''\<rparr>"

definition ex_scene_factory :: BlenderObjectFactory where
  "ex_scene_factory =
     \<lparr>file_ref = 0,
      struct_dna = \<lparr>dna_index = 4, dna_fields = [\<lparr>index_type = 2, index_name = 2\<rparr>,
                                                \<lparr>index_type = 3, index_name = 4\<rparr>]\<rparr>,
      sdna_index = 2, has_name = True, object_type = ex_Scene_type, object_name = ''Scene''\<rparr>"

definition ex_rctf_factory :: BlenderObjectFactory where
  "ex_rctf_factory =
     \<lparr>file_ref = 0,
      struct_dna = \<lparr>dna_index = 5, dna_fields = [\<lparr>index_type = 0, index_name = 7\<rparr>,
                                                \<lparr>index_type = 0, index_name = 8\<rparr>]\<rparr>,
      sdna_index = 3, has_name = False, object_type = ex_rctf_type, object_name = ''rctf''\<rparr>"

text \<open>
  A file of two blocks with the same address: two worlds, \<^verbatim>\<open>Sky\<close> with \<^verbatim>\<open>aodist\<close> 7
  and, after it, \<^verbatim>\<open>Sun\<close> with \<^verbatim>\<open>aodist\<close> 9.
\<close>

definition ex_dup_file :: BlenderFile where
  "ex_dup_file =
     ex_file
       \<lparr>handle_data :=
          ''BLENDER-v277''
          @ ''WO'' @ nul 2 @ [CHR 0x14] @ nul 3 @ [CHR 0x00, CHR 0x10] @ nul 6
            @ [CHR 0x01] @ nul 3 @ [CHR 0x01] @ nul 3
          @ nul 8 @ ''WOSky'' @ nul 3 @ [CHR 0x07] @ nul 3
          @ ''WO'' @ nul 2 @ [CHR 0x14] @ nul 3 @ [CHR 0x00, CHR 0x10] @ nul 6
            @ [CHR 0x01] @ nul 3 @ [CHR 0x01] @ nul 3
          @ nul 8 @ ''WOSun'' @ nul 3 @ [CHR 0x09] @ nul 3,
        blocks :=
          [(\<lparr>b_code = ''WO'' @ nul 2, b_size = 20, b_addr = 4096, b_sdna = 1, b_count = 1\<rparr>, 36),
           (\<lparr>b_code = ''WO'' @ nul 2, b_size = 20, b_addr = 4096, b_sdna = 1, b_count = 1\<rparr>, 80)]\<rparr>"

definition ex_sun :: BlenderObject where
  "ex_sun =
     BlenderObject ex_World_type 0 [(''id'', ex_id (''WOSun'' @ nul 3)), (''aodist'', PInt 9)]"

section \<open>Properties\<close>

subsection \<open>The header\<close>

lemma take1_drop_eq:
  "n < length xs \<Longrightarrow> take (Suc 0) (drop n xs) = [xs ! n]"
  by (simp add: Cons_nth_drop_Suc [symmetric])

lemma version_bytes:
  assumes "length xs = 12"
  shows "map f (drop 9 xs) = [f (xs ! 9), f (xs ! 10), f (xs ! 11)]"
proof -
  have "drop 9 xs = xs ! 9 # drop 10 xs"
    using assms by (simp add: Cons_nth_drop_Suc [symmetric])
  moreover have "drop 10 xs = xs ! 10 # drop 11 xs"
    using assms by (simp add: Cons_nth_drop_Suc [symmetric])
  moreover have "drop 11 xs = xs ! 11 # drop 12 xs"
    using assms by (simp add: Cons_nth_drop_Suc [symmetric])
  ultimately show ?thesis using assms by simp
qed

text \<open>
  C5, as the code has it: a file is accepted exactly when it has at least twelve bytes,
  bytes 0 to 6 are the tag, byte 7 is one of the two architecture markers and byte 8 one
  of the two endianness markers. Bytes 9 to 11 are never checked: each gives the number
  of its code minus 48, whether the byte is a digit or not. Every rejected file raises
  the import exception with the message "Bad file header".
\<close>

theorem init_header_accepts:
  "init_header contents =
     (if 12 \<le> length contents \<and> take 7 contents = ''BLENDER''
         \<and> (contents ! 7 = CHR ''-'' \<or> contents ! 7 = CHR ''_'')
         \<and> (contents ! 8 = CHR ''v'' \<or> contents ! 8 = CHR ''V'')
      then Inr \<lparr>version = \<lparr>major = int (of_char (contents ! 9)) - 48,
                             minor = int (of_char (contents ! 10)) - 48,
                             rev_num = int (of_char (contents ! 11)) - 48\<rparr>,
                 arch = (if contents ! 7 = CHR ''-'' then X64 else X32),
                 endian = (if contents ! 8 = CHR ''v'' then Little else Big)\<rparr>
      else Inl (BlenderFileImportException ''Bad file header''))"
proof (cases "12 \<le> length contents")
  case False
  then have "length (take 12 contents) \<noteq> 12" by simp
  then show ?thesis using False by (simp add: init_header_def parse_header_def)
next
  case True
  let ?h = "take 12 contents"
  have len: "length ?h = 12" using True by simp
  have a: "take 1 (drop 7 ?h) = [contents ! 7]"
    using True by (simp add: take1_drop_eq)
  have e: "take 1 (drop 8 ?h) = [contents ! 8]"
    using True by (simp add: take1_drop_eq)
  have v: "map (\<lambda>x. int (of_char x) - 48) (drop 9 ?h) =
      [int (of_char (contents ! 9)) - 48, int (of_char (contents ! 10)) - 48,
       int (of_char (contents ! 11)) - 48]"
    using version_bytes [OF len, of "\<lambda>x. int (of_char x) - 48"] by simp
  have t: "take 7 ?h = take 7 contents" by (simp add: min_def)
  show ?thesis
    unfolding init_header_def parse_header_def Let_def a e v t
    using True len by auto
qed

theorem init_header_accepts_witness:
  "init_header ''BLENDER-v277'' =
     Inr \<lparr>version = \<lparr>major = 2, minor = 7, rev_num = 7\<rparr>, arch = X64, endian = Little\<rparr>"
  using init_header_accepts [of "''BLENDER-v277''"] by simp

text \<open>
  C5 as stated fails: the three bytes after the markers need not be digits.
\<close>

theorem init_header_no_digit_check:
  "init_header ''BLENDER_Vabc'' =
     Inr \<lparr>version = \<lparr>major = 49, minor = 50, rev_num = 51\<rparr>, arch = X32, endian = Big\<rparr>"
  by (simp add: init_header_def parse_header_def)

subsection \<open>Pointer fields of a structure\<close>





subsection \<open>The model on the small file\<close>

lemma ex_list_World:
  "fst (list_factory 10 0 ex_file ''World'' ex_state) = Inr 0"
  "factories (snd (list_factory 10 0 ex_file ''World'' ex_state)) 0 = Some ex_world_factory"
  by code_simp+

lemma ex_list_Scene:
  "factories (snd (list_factory 10 0 ex_file ''Scene'' ex_state)) 0 = Some ex_scene_factory"
  by code_simp

lemma ex_list_rctf:
  "factories (snd (list_factory 10 0 ex_file ''rctf'' ex_state)) 0 = Some ex_rctf_factory"
  by code_simp

lemma ex_iter_Scene:
  "factory_iter ex_scene_factory ex_state = Inr [ex_scene_a, ex_scene_b]"
  by code_simp

lemma ex_iter_World:
  "factory_iter ex_world_factory ex_state = Inr [ex_world]"
  by code_simp

lemma ex_new_rctf:
  "BlenderObject_new ex_rctf_type 0 ([CHR 0x01] @ nul 3 @ [CHR 0x02] @ nul 3)
     = Inr (BlenderObject ex_rctf_type 0 [(''xmin'', PInt 1), (''xmax'', PInt 2)])"
  "BlenderObject_new ex_rctf_type 0 ([CHR 0x01] @ nul 3 @ [CHR 0x03] @ nul 3)
     = Inr (BlenderObject ex_rctf_type 0 [(''xmin'', PInt 1), (''xmax'', PInt 3)])"
  by code_simp+

subsection \<open>Equality of objects\<close>

text \<open>
  C1 on the code: \<^verbatim>\<open>__eq__\<close> starts from \<^verbatim>\<open>False\<close> and accumulates the comparisons of
  the fields with \<^verbatim>\<open>|=\<close>, so two objects of one type are equal as soon as one field
  agrees. The two rectangles below agree on \<^verbatim>\<open>xmin\<close> and differ on \<^verbatim>\<open>xmax\<close>, and are
  equal for the code.
\<close>

theorem eq_one_field_suffices:
  "BlenderObject_eq (BlenderObject ex_rctf_type 0 [(''xmin'', PInt 1), (''xmax'', PInt 2)])
     (PObj (BlenderObject ex_rctf_type 0 [(''xmin'', PInt 1), (''xmax'', PInt 3)])) = Inr True"
  by code_simp

text \<open>
  An object whose type has no field in its format, such as one made of nested
  structures only, is not equal to itself: the loop never runs.
\<close>

lemma eq_not_reflexive:
  "BlenderObject_eq (BlenderObject (BlenderObjectType nm ver [] fmt cls ptrs) fid attrs)
     (PObj (BlenderObject (BlenderObjectType nm ver [] fmt cls ptrs) fid attrs)) = Inr False"
  by (simp add: BlenderObject_eq_def)

subsection \<open>Resolving an address\<close>

lemma scan_blocks_find:
  "scan_blocks bs ptr = find (\<lambda>(b, offset). b_addr b = ptr) (rev bs)"
  by (induction bs rule: rev_induct) (auto simp: scan_blocks_def split: prod.splits)

text \<open>
  C2, as the code has it: for every address, \<^verbatim>\<open>_from_address\<close> scans the whole block
  table in file order and decodes the last block whose recorded address is the given
  one, that is the first one met when the table is read backwards; when no block has
  the address it raises the read exception whose message names the address in
  hexadecimal, and nothing else changes.
\<close>

theorem from_address_last_match:
  "from_address fuel fid f ptr st =
     (case find (\<lambda>(b, offset). b_addr b = ptr) (rev (blocks f)) of
        None \<Rightarrow>
          (Inl (BlenderFileReadException
                  (''Cannot find the address '' @ hex ptr @ '' in the blend file'')), st)
      | Some (b, offset) \<Rightarrow> decode_block fuel fid f b offset st)"
  by (simp add: from_address_def scan_blocks_find)

theorem from_address_last_match_witness:
  "fst (from_address 10 0 ex_file 4096 ex_state) = Inr (PObj ex_world)
   \<and> fst (from_address 10 0 ex_file 4097 ex_state)
       = Inl (BlenderFileReadException ''Cannot find the address 0x1001 in the blend file'')"
proof -
  have a: "find (\<lambda>(b, offset). b_addr b = 4096) (rev (blocks ex_file))
      = Some (\<lparr>b_code = ''WO'' @ nul 2, b_size = 20, b_addr = 4096, b_sdna = 1, b_count = 1\<rparr>, 36)"
    by code_simp
  have b: "fst (decode_block 10 0 ex_file
      \<lparr>b_code = ''WO'' @ nul 2, b_size = 20, b_addr = 4096, b_sdna = 1, b_count = 1\<rparr> 36 ex_state)
      = Inr (PObj ex_world)"
    by code_simp
  have c: "find (\<lambda>(b, offset). b_addr b = 4097) (rev (blocks ex_file)) = None"
    by code_simp
  have d: "hex 4097 = ''0x1001''" by code_simp
  have "fst (from_address 10 0 ex_file 4096 ex_state) = Inr (PObj ex_world)"
    by (simp only: from_address_last_match a option.case prod.case b)
  moreover have "fst (from_address 10 0 ex_file 4097 ex_state)
       = Inl (BlenderFileReadException ''Cannot find the address 0x1001 in the blend file'')"
    by (simp add: from_address_last_match c d)
  ultimately show ?thesis by simp
qed

text \<open>
  C2 as stated fails when two blocks share an address: the file below has the world
  \<^verbatim>\<open>Sky\<close> and then the world \<^verbatim>\<open>Sun\<close> at address 4096, and the address resolves to the
  second one, not to the first.
\<close>

theorem from_address_takes_last_block:
  "fst (from_address 10 0 ex_dup_file 4096 ex_state) = Inr (PObj ex_sun)
   \<and> fst (decode_block 10 0 ex_dup_file (fst (blocks ex_dup_file ! 0))
           (snd (blocks ex_dup_file ! 0)) ex_state) = Inr (PObj ex_world)
   \<and> ex_sun \<noteq> ex_world"
  by code_simp

subsection \<open>A closed file\<close>

text \<open>
  C3 on the code: \<^verbatim>\<open>close\<close> closes the handle and leaves the file object alive, so the
  weak references of factories and objects still find it. After \<^verbatim>\<open>close\<close>, the length
  of the factory of worlds is still 1, and iteration, lookup by name and the read of a
  pointer field fail with the \<^verbatim>\<open>ValueError\<close> of the closed handle, not with the
  \<^verbatim>\<open>RuntimeError\<close> of a freed parent.
\<close>

theorem closed_file_still_answers:
  "factory_len ex_world_factory (close 0 ex_state) = Inr 1
   \<and> factory_iter ex_world_factory (close 0 ex_state) = Inl ValueError
   \<and> fst (find_by_name 10 ex_world_factory ''Sky'' (close 0 ex_state)) = Inl ValueError
   \<and> fst (getattr 10 (PObj ex_scene_a) ''world'' (close 0 ex_state)) = Inl ValueError"
  by code_simp

text \<open>Only a file object that is gone raises the error of the released parent.\<close>

lemma freed_file_raises:
  "factory_len ex_world_factory (free_file 0 ex_state)
     = Inl (RuntimeError ''Parent blend file was freed'')"
  "factory_iter ex_world_factory (free_file 0 ex_state)
     = Inl (RuntimeError ''Parent blend file was freed'')"
  by code_simp+

subsection \<open>Reading a pointer field\<close>

text \<open>
  C4 on the code: the second scene stores the address 0 in \<^verbatim>\<open>world\<close>. Read first, the
  field gives \<^verbatim>\<open>None\<close>. Read after the field \<^verbatim>\<open>world\<close> of the first scene, it gives the
  world that the first scene points to: the descriptor keeps the last value it
  resolved and returns it for a null pointer.
\<close>

theorem null_pointer_returns_last_lookup:
  "instance_attr ex_scene_b ''ptr_world'' = Inr (PInt 0)
   \<and> fst (getattr 10 (PObj ex_scene_b) ''world'' ex_state) = Inr PNone
   \<and> fst (getattr 10 (PObj ex_scene_b) ''world''
            (snd (getattr 10 (PObj ex_scene_a) ''world'' ex_state))) = Inr (PObj ex_world)"
  by code_simp


subsection \<open>Pointer fields cannot be written\<close>

lemma export_struct_Inr:
  assumes "export_struct f s = Inr bs"
  shows "py_get (type_names (index f)) (dna_index s) = Inr (bs_name bs)"
  using assms
  by (auto simp: export_struct_def then_do_def split: sum.splits)

lemma built_type_pointers:
  assumes "fst (build_object_type fuel f s st) = Inr t"
    and "export_struct f s = Inr bs"
    and "types st (version (header f), bs_name bs) = None"
  shows "t_pointers t = map sf_name (filter sf_ptr (bs_fields bs))"
proof (cases fuel)
  case 0
  with assms show ?thesis by simp
next
  case (Suc k)
  with assms export_struct_Inr [OF assms(2)] show ?thesis
    by (auto simp: Let_def split: sum.splits prod.splits if_splits)
qed

text \<open>
  C10: take a type that \<^verbatim>\<open>_build_object_type\<close> makes anew from a structure, and a
  field of the exported structure that is a pointer. On every object of the type,
  setting the attribute of that name and deleting it raise \<^verbatim>\<open>AttributeError\<close>, and the
  object is afterwards what it was before.
\<close>

theorem pointer_fields_read_only:
  assumes "fst (build_object_type fuel f s st) = Inr t"
    and "export_struct f s = Inr bs"
    and "types st (version (header f), bs_name bs) = None"
    and "fld \<in> set (bs_fields bs)" and "sf_ptr fld"
    and "o_type obj = t"
  shows "py_setattr obj (sf_name fld) v
           = (Some (AttributeError ''Attribute cannot be setted''), obj)
       \<and> py_delattr obj (sf_name fld)
           = (Some (AttributeError ''Attribute cannot be deleted''), obj)"
proof -
  have "sf_name fld \<in> set (t_pointers (o_type obj))"
    using assms by (simp add: built_type_pointers [OF assms(1-3)])
  then show ?thesis by (simp add: py_setattr_def py_delattr_def)
qed

subsection \<open>Looking up an object by name\<close>




theorem pointer_fields_read_only_witness:
  "py_setattr ex_scene_a ''world'' (PInt 0)
     = (Some (AttributeError ''Attribute cannot be setted''), ex_scene_a)
   \<and> py_delattr ex_scene_a ''world''
     = (Some (AttributeError ''Attribute cannot be deleted''), ex_scene_a)"
proof -
  let ?s = "\<lparr>dna_index = 4, dna_fields = [\<lparr>index_type = 2, index_name = 2\<rparr>,
                                            \<lparr>index_type = 3, index_name = 4\<rparr>]\<rparr>"
  let ?id = "\<lparr>sf_name = ''id'', sf_type = ''ID'', sf_size = 16, sf_ptr = False, sf_count = 1\<rparr>"
  let ?w = "\<lparr>sf_name = ''world'', sf_type = ''World'', sf_size = 8, sf_ptr = True, sf_count = 1\<rparr>"
  let ?bs = "\<lparr>bs_name = ''Scene'', bs_fields = [?id, ?w]\<rparr>"
  have 1: "fst (build_object_type 10 ex_file ?s ex_state) = Inr ex_Scene_type"
    by code_simp
  have 2: "export_struct ex_file ?s = Inr ?bs"
    by code_simp
  have 3: "types ex_state (version (header ex_file), bs_name ?bs) = None"
    by (simp add: ex_state_def)
  have 4: "?w \<in> set (bs_fields ?bs)" by simp
  have 5: "sf_ptr ?w" by simp
  have 6: "o_type ex_scene_a = ex_Scene_type" by (simp add: ex_scene_a_def)
  show ?thesis
    using pointer_fields_read_only [OF 1 2 3 4 5 6] by simp
qed



subsection \<open>Arrays of a base type\<close>










lemma dropWhile_digits_all: "list_all is_digit ds \<Longrightarrow> dropWhile is_digit ds = []"
  by (induction ds) simp_all





































subsection \<open>The caches\<close>

lemma layout_Suc:
  "layout k f s = Inr t \<Longrightarrow> layout (Suc k) f s = Inr t"
  "layout_dependencies k f zs offset = Inr ds \<Longrightarrow> layout_dependencies (Suc k) f zs offset = Inr ds"
proof (induction k f s and k f zs offset arbitrary: t and ds rule: layout_layout_dependencies.induct)
  case (1 f s)
  then show ?case by simp
next
  case (2 k f s)
  from "2.prems" obtain bs deps names where
    e: "export_struct f s = Inr bs"
    and d: "layout_dependencies k f (zip (bs_fields bs) (dna_fields s)) 0 = Inr deps"
    and n: "namedtuple (bs_name bs) (snd (compile_fmt (bs_fields bs))) = Inr names"
    by (auto simp: then_do_def split: sum.splits if_splits)
  have "layout_dependencies (Suc k) f (zip (bs_fields bs) (dna_fields s)) 0 = Inr deps"
    by (rule "2.IH" [OF e d])
  with "2.prems" e d n show ?case
    by (simp del: layout.simps(2) add: layout.simps(2) [of "Suc k"] layout.simps(2) [of k])
next
  case (3 k f offset)
  then show ?case by simp
next
  case (4 k f fld d rest offset)
  show ?case
  proof (cases "map_of BASE_TYPES (sf_type fld) = None \<and> \<not> sf_ptr fld")
    case False
    with "4.prems" "4.IH"(3) show ?thesis by (auto simp del: layout.simps(2))
  next
    case True
    with "4.prems" obtain tmp t' deps where
      s: "struct_lookup f (index_type d) = Inr tmp"
      and l: "layout k f tmp = Inr t'"
      and r: "layout_dependencies k f rest (offset + sf_size fld) = Inr deps"
      and ds: "ds = (t', (offset, offset + sf_size fld), sf_name fld) # deps"
      by (auto simp: then_do_def split: sum.splits)
    have "layout (Suc k) f tmp = Inr t'" by (rule "4.IH"(1) [OF True s l])
    moreover have "layout_dependencies (Suc k) f rest (offset + sf_size fld) = Inr deps"
      by (rule "4.IH"(2) [OF True s l r])
    ultimately show ?thesis using True s ds
      by (simp del: layout.simps(2))
  qed
qed


lemma layout_mono:
  assumes "k \<le> k'"
  shows "layout k f s = Inr t \<Longrightarrow> layout k' f s = Inr t"
    and "layout_dependencies k f zs offset = Inr ds \<Longrightarrow> layout_dependencies k' f zs offset = Inr ds"
  using assms by (induction k' rule: dec_induct) (simp_all add: layout_Suc del: layout.simps)

lemma has_layout_unique: "has_layout f s t \<Longrightarrow> has_layout f s t' \<Longrightarrow> t = t'"
proof -
  assume "has_layout f s t" "has_layout f s t'"
  then obtain k k' where a: "layout k f s = Inr t" and b: "layout k' f s = Inr t'"
    by (auto simp: has_layout_def)
  have "layout (max k k') f s = Inr t" by (rule layout_mono(1) [OF _ a]) simp
  moreover have "layout (max k k') f s = Inr t'" by (rule layout_mono(1) [OF _ b]) simp
  ultimately show ?thesis by simp
qed

lemma struct_lookup_member:
  "struct_lookup f i = Inr s \<Longrightarrow> s \<in> set (structures (index f))"
  by (auto simp: struct_lookup_def then_do_def find_Some_iff split: option.splits if_splits sum.splits)

lemma unique_names_eq:
  assumes "unique_names f" "s \<in> set (structures (index f))" "s' \<in> set (structures (index f))"
    and "py_get (type_names (index f)) (dna_index s) = py_get (type_names (index f)) (dna_index s')"
  shows "s = s'"
  using assms unfolding unique_names_def
  by (metis distinct_map inj_on_def)

lemma consistent_update:
  assumes "consistent f st" "unique_names f" "s \<in> set (structures (index f))"
    and "py_get (type_names (index f)) (dna_index s) = Inr name" "has_layout f s t"
    and "types st' = (types st)((version (header f), name) \<mapsto> t)"
  shows "consistent f st'"
  unfolding consistent_def
proof (intro ballI allI impI)
  fix s' name' t'
  assume m: "s' \<in> set (structures (index f))"
    and h: "py_get (type_names (index f)) (dna_index s') = Inr name'
        \<and> types st' (version (header f), name') = Some t'"
  show "has_layout f s' t'"
  proof (cases "name' = name")
    case True
    with h assms(4) have "py_get (type_names (index f)) (dna_index s)
        = py_get (type_names (index f)) (dna_index s')" by simp
    then have "s = s'" by (rule unique_names_eq [OF assms(2) assms(3) m])
    moreover have "t' = t" using h True assms(6) by simp
    ultimately show ?thesis using assms(5) by simp
  next
    case False
    with h assms(6) have "types st (version (header f), name') = Some t'" by simp
    with assms(1) m h show ?thesis by (auto simp: consistent_def)
  qed
qed

lemma build_sound:
  "consistent f st \<Longrightarrow> unique_names f \<Longrightarrow> s \<in> set (structures (index f)) \<Longrightarrow>
     build_object_type k f s st = (Inr t, st') \<Longrightarrow> has_layout f s t \<and> consistent f st'"
  "consistent f st \<Longrightarrow> unique_names f \<Longrightarrow>
     build_dependencies k f zs offset st = (Inr ds, st') \<Longrightarrow>
     (\<exists>k'. layout_dependencies k' f zs offset = Inr ds) \<and> consistent f st'"
proof (induction k f s st and k f zs offset st arbitrary: t st' and ds st'
    rule: build_object_type_build_dependencies.induct)
  case (1 f s st)
  then show ?case by simp
next
  case (2 k f s st)
  from "2.prems"(4) obtain name where
    nm: "py_get (type_names (index f)) (dna_index s) = Inr name"
    by (auto split: sum.splits)
  show ?case
  proof (cases "types st (version (header f), name)")
    case (Some t0)
    with "2.prems"(4) nm have "t = t0" "st' = st" by simp_all
    with "2.prems"(1,3) nm Some show ?thesis by (auto simp: consistent_def)
  next
    case None
    with "2.prems"(4) nm obtain bs deps st1 names where
      e: "export_struct f s = Inr bs"
      and d: "build_dependencies k f (zip (bs_fields bs) (dna_fields s)) 0 st = (Inr deps, st1)"
      and n: "namedtuple (bs_name bs) (snd (compile_fmt (bs_fields bs))) = Inr names"
      and p: "parse_fmt (fmt_strct f (fst (compile_fmt (bs_fields bs)))) \<noteq> None"
      and t: "t = BlenderObjectType (bs_name bs) (version (header f)) names
                  (fmt_strct f (fst (compile_fmt (bs_fields bs)))) deps
                  (map sf_name (filter sf_ptr (bs_fields bs)))"
      and s': "st' = st1\<lparr>types := (types st1)((version (header f), bs_name bs) \<mapsto> t)\<rparr>"
      by (auto simp: Let_def split: sum.splits prod.splits if_splits)
    from "2.IH" [OF nm None e "2.prems"(1,2) d] obtain k' where
      ld: "layout_dependencies k' f (zip (bs_fields bs) (dna_fields s)) 0 = Inr deps"
      and c1: "consistent f st1" by blast
    have bn: "bs_name bs = name" using export_struct_Inr [OF e] nm by simp
    have "layout (Suc k') f s = Inr t" using e ld n p t by simp
    then have hl: "has_layout f s t" unfolding has_layout_def by (rule exI)
    have "consistent f st'"
      by (rule consistent_update [OF c1 "2.prems"(2,3) nm hl]) (simp add: s' bn)
    with hl show ?thesis by simp
  qed
next
  case (3 k f offset st)
  then show ?case by auto
next
  case (4 k f fld d rest offset st)
  show ?case
  proof (cases "map_of BASE_TYPES (sf_type fld) = None \<and> \<not> sf_ptr fld")
    case False
    with "4.prems" have "build_dependencies k f rest (offset + sf_size fld) st = (Inr ds, st')"
      by auto
    from "4.IH"(3) [OF False "4.prems"(1,2) this] False show ?thesis
      by (auto simp del: layout.simps)
  next
    case True
    with "4.prems"(3) obtain tmp t1 st1 deps where
      s: "struct_lookup f (index_type d) = Inr tmp"
      and b: "build_object_type k f tmp st = (Inr t1, st1)"
      and r: "build_dependencies k f rest (offset + sf_size fld) st1 = (Inr deps, st')"
      and ds: "ds = (t1, (offset, offset + sf_size fld), sf_name fld) # deps"
      by (auto split: sum.splits prod.splits)
    from "4.IH"(1) [OF True s "4.prems"(1,2) struct_lookup_member [OF s] b]
    have hl: "has_layout f tmp t1" and c1: "consistent f st1" by simp_all
    from "4.IH"(2) [OF True s b [symmetric] refl c1 "4.prems"(2) r] obtain k2 where
      l2: "layout_dependencies k2 f rest (offset + sf_size fld) = Inr deps"
      and c2: "consistent f st'" by blast
    from hl obtain k1 where l1: "layout k1 f tmp = Inr t1" by (auto simp: has_layout_def)
    have "layout (max k1 k2) f tmp = Inr t1" by (rule layout_mono(1) [OF _ l1]) simp
    moreover have "layout_dependencies (max k1 k2) f rest (offset + sf_size fld) = Inr deps"
      by (rule layout_mono(2) [OF _ l2]) simp
    ultimately have "layout_dependencies (max k1 k2) f ((fld, d) # rest) offset = Inr ds"
      using True s ds by (simp del: layout.simps)
    with c2 show ?thesis by blast
  qed
qed


lemma enumerate_find_member:
  assumes "find (\<lambda>(i, s). P s) (enumerate n xs) = Some (i, s)"
  shows "s \<in> set xs"
proof -
  from assms obtain m where "m < length (enumerate n xs)" "enumerate n xs ! m = (i, s)"
    by (auto simp: find_Some_iff)
  then have "s = xs ! m" "m < length xs" by (simp_all add: nth_enumerate_eq)
  then show ?thesis by simp
qed

lemma factory_init_sound:
  assumes "consistent f st" "unique_names f"
    and "BlenderObjectFactory_init k fid f idx st = (Inr F, st1)"
  shows "\<exists>i dna hn nm.
      find (\<lambda>(i, s). dna_index s = idx) (enumerate 0 (structures (index f))) = Some (i, dna)
      \<and> has_ID (type_names (index f)) (dna_fields dna) = Inr hn
      \<and> py_get (type_names (index f)) (dna_index dna) = Inr nm
      \<and> F = \<lparr>file_ref = fid, struct_dna = dna, sdna_index = i, has_name = hn,
              object_type = object_type F, object_name = nm\<rparr>
      \<and> has_layout f dna (object_type F) \<and> consistent f st1"
proof -
  from assms(3) obtain i dna hn t nm where
    fi: "find (\<lambda>(i, s). dna_index s = idx) (enumerate 0 (structures (index f))) = Some (i, dna)"
    and hid: "has_ID (type_names (index f)) (dna_fields dna) = Inr hn"
    and b: "build_object_type k f dna st = (Inr t, st1)"
    and pn: "py_get (type_names (index f)) (dna_index dna) = Inr nm"
    and F: "F = \<lparr>file_ref = fid, struct_dna = dna, sdna_index = i, has_name = hn,
              object_type = t, object_name = nm\<rparr>"
    unfolding BlenderObjectFactory_init_def
    by (auto split: option.splits sum.splits prod.splits)
  have m: "dna \<in> set (structures (index f))" by (rule enumerate_find_member [OF fi])
  from build_sound(1) [OF assms(1,2) m b] have "has_layout f dna t" "consistent f st1"
    by simp_all
  with fi hid pn F show ?thesis by auto
qed

lemma factory_init_equal:
  assumes "unique_names f" "consistent f st" "consistent f st2"
    and "BlenderObjectFactory_init k fid f idx st = (Inr F, st1)"
    and "BlenderObjectFactory_init k2 fid f idx st2 = (Inr F', st3)"
  shows "F' = F"
proof -
  from factory_init_sound [OF assms(2,1,4)] obtain i dna hn nm where
    a: "find (\<lambda>(i, s). dna_index s = idx) (enumerate 0 (structures (index f))) = Some (i, dna)"
      "has_ID (type_names (index f)) (dna_fields dna) = Inr hn"
      "py_get (type_names (index f)) (dna_index dna) = Inr nm"
      "F = \<lparr>file_ref = fid, struct_dna = dna, sdna_index = i, has_name = hn,
              object_type = object_type F, object_name = nm\<rparr>"
      "has_layout f dna (object_type F)"
    by blast
  from factory_init_sound [OF assms(3,1,5)] obtain i' dna' hn' nm' where
    b: "find (\<lambda>(i, s). dna_index s = idx) (enumerate 0 (structures (index f))) = Some (i', dna')"
      "has_ID (type_names (index f)) (dna_fields dna') = Inr hn'"
      "py_get (type_names (index f)) (dna_index dna') = Inr nm'"
      "F' = \<lparr>file_ref = fid, struct_dna = dna', sdna_index = i', has_name = hn',
              object_type = object_type F', object_name = nm'\<rparr>"
      "has_layout f dna' (object_type F')"
    by blast
  from a(1) b(1) have e: "i' = i" "dna' = dna" by simp_all
  with a b have "hn' = hn" "nm' = nm" by simp_all
  moreover have "object_type F' = object_type F"
    using has_layout_unique [OF b(5) [unfolded e] a(5)] .
  ultimately show ?thesis using a(4) b(4) e by simp
qed

lemma consistent_types: "types st' = types st \<Longrightarrow> consistent f st' = consistent f st"
  by (simp add: consistent_def)

lemma build_complete:
  "layout k f s = Inr t \<Longrightarrow> consistent f st \<Longrightarrow> unique_names f \<Longrightarrow>
     s \<in> set (structures (index f)) \<Longrightarrow>
     \<exists>st'. build_object_type k f s st = (Inr t, st')"
  "layout_dependencies k f zs offset = Inr ds \<Longrightarrow> consistent f st \<Longrightarrow> unique_names f \<Longrightarrow>
     \<exists>st'. build_dependencies k f zs offset st = (Inr ds, st')"
proof (induction k f s and k f zs offset arbitrary: t st and ds st
    rule: layout_layout_dependencies.induct)
  case (1 f s)
  then show ?case by simp
next
  case (2 k f s)
  from "2.prems"(1) obtain bs deps names where
    e: "export_struct f s = Inr bs"
    and d: "layout_dependencies k f (zip (bs_fields bs) (dna_fields s)) 0 = Inr deps"
    and n: "namedtuple (bs_name bs) (snd (compile_fmt (bs_fields bs))) = Inr names"
    and p: "parse_fmt (fmt_strct f (fst (compile_fmt (bs_fields bs)))) \<noteq> None"
    and t: "t = BlenderObjectType (bs_name bs) (version (header f)) names
                (fmt_strct f (fst (compile_fmt (bs_fields bs)))) deps
                (map sf_name (filter sf_ptr (bs_fields bs)))"
    by (auto simp: then_do_def split: sum.splits if_splits)
  note nm = export_struct_Inr [OF e]
  show ?case
  proof (cases "types st (version (header f), bs_name bs)")
    case (Some t0)
    with "2.prems"(2,4) nm have "has_layout f s t0" by (auto simp: consistent_def)
    moreover have "has_layout f s t" using "2.prems"(1) unfolding has_layout_def by (rule exI)
    ultimately have "t0 = t" by (rule has_layout_unique)
    with Some nm show ?thesis by simp
  next
    case None
    from "2.IH" [OF e d "2.prems"(2,3)] obtain st1 where
      "build_dependencies k f (zip (bs_fields bs) (dna_fields s)) 0 st = (Inr deps, st1)"
      by blast
    with None nm e n p t show ?thesis by (simp add: Let_def)
  qed
next
  case (3 k f offset)
  then show ?case by simp
next
  case (4 k f fld d rest offset)
  show ?case
  proof (cases "map_of BASE_TYPES (sf_type fld) = None \<and> \<not> sf_ptr fld")
    case False
    with "4.prems"(1) have "layout_dependencies k f rest (offset + sf_size fld) = Inr ds"
      by (auto simp del: layout.simps)
    from "4.IH"(3) [OF False this "4.prems"(2,3)] False show ?thesis by auto
  next
    case True
    with "4.prems"(1) obtain tmp t1 deps where
      s: "struct_lookup f (index_type d) = Inr tmp"
      and l: "layout k f tmp = Inr t1"
      and r: "layout_dependencies k f rest (offset + sf_size fld) = Inr deps"
      and ds: "ds = (t1, (offset, offset + sf_size fld), sf_name fld) # deps"
      by (auto simp: then_do_def simp del: layout.simps split: sum.splits)
    note m = struct_lookup_member [OF s]
    from "4.IH"(1) [OF True s l "4.prems"(2,3) m] obtain st1 where
      b: "build_object_type k f tmp st = (Inr t1, st1)" by blast
    from build_sound(1) [OF "4.prems"(2,3) m b] have c1: "consistent f st1" by simp
    from "4.IH"(2) [OF True s l r c1 "4.prems"(3)] obtain st2 where
      "build_dependencies k f rest (offset + sf_size fld) st1 = (Inr deps, st2)" by blast
    with True s b ds show ?thesis by simp
  qed
qed

text \<open>
  C8. Take a file whose structures have different names and a state whose cache of
  types agrees with the file, and let \<^verbatim>\<open>list(name)\<close> find no live factory and build
  one. Then the factory is alive under the identifier returned; every further
  \<^verbatim>\<open>list(name)\<close> in the state reached returns the same identifier and changes nothing,
  so that nothing is built again; the cache of types still agrees with the file; in
  every later state whose cache of types agrees with the file and in which the weak
  reference to the factory is dead or absent, a \<^verbatim>\<open>list(name)\<close> that returns has built
  a factory equal in every component to the first, which therefore iterates to the
  same objects; and there is a depth of recursion from which on \<^verbatim>\<open>list(name)\<close> does
  return in every such state.
\<close>

theorem list_factory_cache:
  assumes "unique_names f" and "consistent f st"
    and "cached_factory st (version (header f), name) = None"
    and "list_factory k fid f name st = (Inr i, st1)"
  shows "\<exists>F. factories st1 i = Some F
    \<and> (\<forall>k'. list_factory k' fid f name st1 = (Inr i, st1))
    \<and> consistent f st1
    \<and> (\<forall>st2 k2 j st3.
          consistent f st2 \<and> cached_factory st2 (version (header f), name) = None
          \<and> list_factory k2 fid f name st2 = (Inr j, st3)
          \<longrightarrow> factories st3 j = Some F
              \<and> (\<forall>F' s. factories st3 j = Some F' \<longrightarrow> factory_iter F' s = factory_iter F s))
    \<and> (\<exists>k0. \<forall>st2 k2.
          k0 \<le> k2 \<and> consistent f st2 \<and> cached_factory st2 (version (header f), name) = None
          \<longrightarrow> (\<exists>j st3. list_factory k2 fid f name st2 = (Inr j, st3)))"
proof -
  let ?idx = "int (index_of (type_names (index f)) name)"
  have miss: "\<exists>F s1. BlenderObjectFactory_init q fid f ?idx s = (Inr F, s1)
      \<and> name \<in> set (type_names (index f))
      \<and> j = next_factory s1
      \<and> s' = s1\<lparr>factories := (factories s1)(next_factory s1 \<mapsto> F),
                 fact_cache := (fact_cache s1)((version (header f), name) \<mapsto> next_factory s1),
                 next_factory := Suc (next_factory s1)\<rparr>"
    if "cached_factory s (version (header f), name) = None"
      and "list_factory q fid f name s = (Inr j, s')" for q s j s'
    using that unfolding list_factory_def
    by (auto split: if_splits sum.splits prod.splits)
  from miss [OF assms(3,4)] obtain F s1 where
    init: "BlenderObjectFactory_init k fid f ?idx st = (Inr F, s1)"
    and known: "name \<in> set (type_names (index f))"
    and i: "i = next_factory s1"
    and st1: "st1 = s1\<lparr>factories := (factories s1)(next_factory s1 \<mapsto> F),
                 fact_cache := (fact_cache s1)((version (header f), name) \<mapsto> next_factory s1),
                 next_factory := Suc (next_factory s1)\<rparr>"
    by blast
  have F: "factories st1 i = Some F" using i st1 by simp
  have hit: "cached_factory st1 (version (header f), name) = Some i"
    using i st1 by (simp add: cached_factory_def)
  have again: "\<forall>k'. list_factory k' fid f name st1 = (Inr i, st1)"
    using hit by (simp add: list_factory_def)
  from factory_init_sound [OF assms(2,1) init] obtain pos dna hn nm where
    fi: "find (\<lambda>(i, s). dna_index s = ?idx) (enumerate 0 (structures (index f))) = Some (pos, dna)"
    and hid: "has_ID (type_names (index f)) (dna_fields dna) = Inr hn"
    and pn: "py_get (type_names (index f)) (dna_index dna) = Inr nm"
    and hl: "has_layout f dna (object_type F)"
    and cs1: "consistent f s1"
    by blast
  have c1: "consistent f st1" using cs1 st1 by (simp add: consistent_def)
  have re: "factories st3 j = Some F
      \<and> (\<forall>F' s. factories st3 j = Some F' \<longrightarrow> factory_iter F' s = factory_iter F s)"
    if h: "consistent f st2 \<and> cached_factory st2 (version (header f), name) = None
          \<and> list_factory k2 fid f name st2 = (Inr j, st3)" for st2 k2 j st3
  proof -
    from h miss [of st2 k2 j st3] obtain F' s3 where
      init': "BlenderObjectFactory_init k2 fid f ?idx st2 = (Inr F', s3)"
      and j: "j = next_factory s3"
      and st3: "st3 = s3\<lparr>factories := (factories s3)(next_factory s3 \<mapsto> F'),
                 fact_cache := (fact_cache s3)((version (header f), name) \<mapsto> next_factory s3),
                 next_factory := Suc (next_factory s3)\<rparr>"
      by blast
    have "F' = F" using factory_init_equal [OF assms(1,2) _ init init'] h by blast
    then have "factories st3 j = Some F" using j st3 by simp
    then show ?thesis by simp
  qed
  from hl obtain k0 where l0: "layout k0 f dna = Inr (object_type F)"
    by (auto simp: has_layout_def)
  have m: "dna \<in> set (structures (index f))" by (rule enumerate_find_member [OF fi])
  have ret: "\<exists>j st3. list_factory k2 fid f name st2 = (Inr j, st3)"
    if h: "k0 \<le> k2 \<and> consistent f st2
          \<and> cached_factory st2 (version (header f), name) = None" for st2 k2
  proof -
    have "layout k2 f dna = Inr (object_type F)"
      by (rule layout_mono(1) [OF _ l0]) (use h in simp)
    from build_complete(1) [OF this _ assms(1) m, of st2] h obtain s3 where
      "build_object_type k2 f dna st2 = (Inr (object_type F), s3)" by blast
    with fi hid pn have "\<exists>F'. BlenderObjectFactory_init k2 fid f ?idx st2 = (Inr F', s3)"
      by (simp add: BlenderObjectFactory_init_def)
    with h known show ?thesis by (auto simp: list_factory_def)
  qed
  from F again c1 re ret show ?thesis by blast
qed

theorem list_factory_cache_witness:
  "factories (snd (list_factory 10 0 ex_file ''World'' ex_state)) 0 = Some ex_world_factory
   \<and> list_factory 5 0 ex_file ''World'' (snd (list_factory 10 0 ex_file ''World'' ex_state))
       = (Inr 0, snd (list_factory 10 0 ex_file ''World'' ex_state))
   \<and> fst (list_factory 7 0 ex_file ''World''
             (collect_factory 0 (snd (list_factory 10 0 ex_file ''World'' ex_state)))) = Inr 1
   \<and> factories (snd (list_factory 7 0 ex_file ''World''
             (collect_factory 0 (snd (list_factory 10 0 ex_file ''World'' ex_state))))) 1
       = Some ex_world_factory"
proof -
  let ?st1 = "snd (list_factory 10 0 ex_file ''World'' ex_state)"
  let ?st2 = "collect_factory 0 ?st1"
  let ?st3 = "snd (list_factory 7 0 ex_file ''World'' ?st2)"
  have u: "unique_names ex_file" by code_simp
  have c: "consistent ex_file ex_state" by (simp add: consistent_def ex_state_def)
  have m: "cached_factory ex_state (version (header ex_file), ''World'') = None"
    by code_simp
  have "fst (list_factory 10 0 ex_file ''World'' ex_state) = Inr 0" by code_simp
  then have l: "list_factory 10 0 ex_file ''World'' ex_state = (Inr 0, ?st1)"
    by (metis prod.collapse)
  from list_factory_cache [OF u c m l] obtain F where
    F: "factories ?st1 0 = Some F"
    and again: "\<forall>k'. list_factory k' 0 ex_file ''World'' ?st1 = (Inr 0, ?st1)"
    and c1: "consistent ex_file ?st1"
    and re: "\<forall>st2 k2 j st3.
          consistent ex_file st2 \<and> cached_factory st2 (version (header ex_file), ''World'') = None
          \<and> list_factory k2 0 ex_file ''World'' st2 = (Inr j, st3)
          \<longrightarrow> factories st3 j = Some F
              \<and> (\<forall>F' s. factories st3 j = Some F' \<longrightarrow> factory_iter F' s = factory_iter F s)"
    by blast
  have "factories ?st1 0 = Some ex_world_factory" by code_simp
  with F have Fw: "F = ex_world_factory" by simp
  have c2: "consistent ex_file ?st2"
    using c1 by (simp add: consistent_def collect_factory_def)
  have m2: "cached_factory ?st2 (version (header ex_file), ''World'') = None"
    by code_simp
  have f2: "fst (list_factory 7 0 ex_file ''World'' ?st2) = Inr 1" by code_simp
  then have l2: "list_factory 7 0 ex_file ''World'' ?st2 = (Inr 1, ?st3)"
    by (metis prod.collapse)
  from re c2 m2 l2 have "factories ?st3 1 = Some F" by blast
  with F Fw again f2 show ?thesis by simp
qed

end
